theory Spec2Isabelle
  imports Complex_Main "HOL-Library.Word"
begin

section \<open>Strings and JSON values\<close>

text \<open>
  A JavaScript string is a sequence of UTF-16 code units: \<open>length\<close> counts code
  units and \<open>slice\<close> cuts between them. ASCII literals of the source are written
  \<open>ascii ''...''\<close>; a code unit outside ASCII is written as its number.
\<close>

type_synonym jschar = "16 word"
type_synonym jsstring = "jschar list"

definition ascii :: "string \<Rightarrow> jsstring" where
  "ascii s = map of_char s"

definition newline :: jsstring where
  "newline = [0x0A]"

text \<open>
  \<open>String.prototype.trim\<close> removes the code units of ECMAScript's WhiteSpace and
  LineTerminator productions from both ends: TAB, VT, FF, SP, NBSP, ZWNBSP, the
  Space_Separator category, LF, CR, LS and PS.
\<close>

definition is_js_whitespace :: "jschar \<Rightarrow> bool" where
  "is_js_whitespace c = (c \<in> set [0x09, 0x0A, 0x0B, 0x0C, 0x0D, 0x20, 0xA0, 0x1680,
     0x2000, 0x2001, 0x2002, 0x2003, 0x2004, 0x2005, 0x2006, 0x2007, 0x2008, 0x2009,
     0x200A, 0x2028, 0x2029, 0x202F, 0x205F, 0x3000, 0xFEFF])"

definition trim :: "jsstring \<Rightarrow> jsstring" where
  "trim s = rev (dropWhile is_js_whitespace (rev (dropWhile is_js_whitespace s)))"

text \<open>\<open>String.prototype.repeat\<close> and \<open>Array.prototype.join\<close>.\<close>

definition repeat :: "jsstring \<Rightarrow> nat \<Rightarrow> jsstring" where
  "repeat s n = concat (replicate n s)"

fun join :: "jsstring \<Rightarrow> jsstring list \<Rightarrow> jsstring" where
  "join sep [] = []"
| "join sep [x] = x"
| "join sep (x # y # ys) = x @ sep @ join sep (y # ys)"

text \<open>
  A non-negative integer in a template literal is rendered in decimal (the numbers
  rendered here are lengths, counts and offsets, far below the \<open>1e21\<close> at which
  JavaScript switches to exponent notation).
\<close>

fun show_nat :: "nat \<Rightarrow> jsstring" where
  "show_nat n =
     (if n < 10 then [of_nat (48 + n)]
      else show_nat (n div 10) @ [of_nat (48 + n mod 10)])"

declare show_nat.simps [simp del]

definition show_int :: "int \<Rightarrow> jsstring" where
  "show_int i = (if i < 0 then ascii ''-'' @ show_nat (nat (- i)) else show_nat (nat i))"

text \<open>JSON values: tool arguments, property maps and request bodies.\<close>

datatype json =
    JNull
  | JBool bool
  | JNum rat
  | JStr jsstring
  | JArr "json list"
  | JObj "(string \<times> json) list"

section \<open>constants.ts\<close>

definition DEFAULT_API_URL :: jsstring where
  "DEFAULT_API_URL = ascii ''http://127.0.0.1:12315''"

definition CHARACTER_LIMIT :: nat where
  "CHARACTER_LIMIT = 100000"

definition DEFAULT_PAGE_LIMIT :: nat where
  "DEFAULT_PAGE_LIMIT = 50"

definition REQUEST_TIMEOUT_MS :: nat where
  "REQUEST_TIMEOUT_MS = 30000"

section \<open>types.ts: the entities of the remote application\<close>

datatype Format = Markdown | Org

text \<open>
  The interface declares \<open>name\<close> and \<open>content\<close> as strings, but the code guards
  against their absence (\<open>p.name ?? ""\<close>, \<open>block.content?.trim()\<close>), so both are
  optional here.
\<close>

record PageEntity =
  page_id :: int
  page_uuid :: jsstring
  page_name :: "jsstring option"
  originalName :: jsstring
  journal :: bool
  page_file :: "(int \<times> jsstring) option"
  namespace :: "int option"
  page_properties :: "(string \<times> json) list option"
  createdAt :: "int option"
  updatedAt :: "int option"
  page_format :: "Format option"

datatype BlockEntity = BlockEntity
  (block_id: int)
  (block_uuid: jsstring)
  (content: "jsstring option")
  (block_left: int)
  (block_parent: int)
  (block_page: int)
  (block_properties: "(string \<times> json) list option")
  (children: "BlockEntity list option")
  (block_format: "Format option")
  (pre_block: "bool option")

section \<open>schemas/index.ts: the input schemas\<close>

text \<open>
  The schemas are declared with zod. A schema is written here as the term the
  declaration builds; \<open>safeParse\<close> gives it zod's meaning: it returns the issues
  found (none when the input is accepted) and the parsed value with the defaults
  filled in. An absent object key is the input \<open>None\<close> (JavaScript's \<open>undefined\<close>).
  \<open>ZNumber True lo hi\<close> is \<open>z.number().int()\<close> with the bounds given by
  \<open>.min\<close> and \<open>.max\<close>; \<open>ZString lo hi\<close> is \<open>z.string()\<close> with the bounds on its
  length; \<open>ZObject shape True\<close> is \<open>z.object(shape).strict()\<close>.
\<close>

datatype ZodIssueCode =
    invalid_type
  | too_small
  | too_big
  | invalid_enum_value
  | unrecognized_keys "string list"

datatype PathElem = Key string | Index nat

datatype ZodIssue = ZodIssue (code: ZodIssueCode) (path: "PathElem list")

datatype ZodType =
    ZString "nat option" "nat option"
  | ZNumber bool "rat option" "rat option"
  | ZBoolean
  | ZEnum "jsstring list"
  | ZUnknown
  | ZRecord ZodType
  | ZArray ZodType "nat option"
  | ZObject "(string \<times> ZodType) list" bool
  | ZOptional ZodType
  | ZDefault ZodType json

definition is_integer :: "rat \<Rightarrow> bool" where
  "is_integer q = (of_int \<lfloor>q\<rfloor> = q)"

definition check :: "bool \<Rightarrow> ZodIssueCode \<Rightarrow> PathElem list \<Rightarrow> ZodIssue list" where
  "check ok c p = (if ok then [] else [ZodIssue c p])"

definition defined_entries :: "(string \<times> json option) list \<Rightarrow> (string \<times> json) list" where
  "defined_entries rs =
     concat (map (\<lambda>r. case snd r of Some x \<Rightarrow> [(fst r, x)] | None \<Rightarrow> []) rs)"

fun safeParse ::
  "ZodType \<Rightarrow> PathElem list \<Rightarrow> json option \<Rightarrow> ZodIssue list \<times> json option" where
  "safeParse (ZString lo hi) p v =
     (case v of
        Some (JStr s) \<Rightarrow>
          (check (case lo of Some m \<Rightarrow> m \<le> length s | None \<Rightarrow> True) too_small p @
           check (case hi of Some m \<Rightarrow> length s \<le> m | None \<Rightarrow> True) too_big p, v)
      | _ \<Rightarrow> ([ZodIssue invalid_type p], None))"
| "safeParse (ZNumber int_only lo hi) p v =
     (case v of
        Some (JNum q) \<Rightarrow>
          (check (if int_only then is_integer q else True) invalid_type p @
           check (case lo of Some m \<Rightarrow> m \<le> q | None \<Rightarrow> True) too_small p @
           check (case hi of Some m \<Rightarrow> q \<le> m | None \<Rightarrow> True) too_big p, v)
      | _ \<Rightarrow> ([ZodIssue invalid_type p], None))"
| "safeParse ZBoolean p v =
     (case v of Some (JBool b) \<Rightarrow> ([], v) | _ \<Rightarrow> ([ZodIssue invalid_type p], None))"
| "safeParse (ZEnum vals) p v =
     (case v of
        Some (JStr s) \<Rightarrow> (check (s \<in> set vals) invalid_enum_value p, v)
      | _ \<Rightarrow> ([ZodIssue invalid_type p], None))"
| "safeParse ZUnknown p v = ([], v)"
| "safeParse (ZRecord t) p v =
     (case v of
        Some (JObj kvs) \<Rightarrow>
          (let rs = map (\<lambda>kv. (fst kv, safeParse t (p @ [Key (fst kv)]) (Some (snd kv)))) kvs
           in (concat (map (\<lambda>r. fst (snd r)) rs),
               Some (JObj (defined_entries (map (\<lambda>r. (fst r, snd (snd r))) rs)))))
      | _ \<Rightarrow> ([ZodIssue invalid_type p], None))"
| "safeParse (ZArray t lo) p v =
     (case v of
        Some (JArr xs) \<Rightarrow>
          (let rs = map (\<lambda>ix. safeParse t (p @ [Index (fst ix)]) (Some (snd ix)))
                      (enumerate 0 xs)
           in (check (case lo of Some m \<Rightarrow> m \<le> length xs | None \<Rightarrow> True) too_small p @
               concat (map fst rs),
               Some (JArr (map (\<lambda>r. case snd r of Some x \<Rightarrow> x | None \<Rightarrow> JNull) rs))))
      | _ \<Rightarrow> ([ZodIssue invalid_type p], None))"
| "safeParse (ZObject shape strict) p v =
     (case v of
        Some (JObj kvs) \<Rightarrow>
          (let rs = map (\<lambda>kt. (fst kt,
                        safeParse (snd kt) (p @ [Key (fst kt)]) (map_of kvs (fst kt)))) shape;
               extra = filter (\<lambda>k. k \<notin> set (map fst shape)) (map fst kvs)
           in (concat (map (\<lambda>r. fst (snd r)) rs) @
               (if strict \<and> extra \<noteq> [] then [ZodIssue (unrecognized_keys extra) p] else []),
               Some (JObj (defined_entries (map (\<lambda>r. (fst r, snd (snd r))) rs)))))
      | _ \<Rightarrow> ([ZodIssue invalid_type p], None))"
| "safeParse (ZOptional t) p v =
     (case v of None \<Rightarrow> ([], None) | Some x \<Rightarrow> safeParse t p v)"
| "safeParse (ZDefault t d) p v =
     (case v of None \<Rightarrow> safeParse t p (Some d) | Some x \<Rightarrow> safeParse t p v)"

text \<open>The validator: the parsed parameters, or the issues that reject the input.\<close>

definition validate :: "ZodType \<Rightarrow> json \<Rightarrow> ZodIssue list + json" where
  "validate schema raw =
     (case safeParse schema [] (Some raw) of
        ([], Some params) \<Rightarrow> Inr params
      | (issues, _) \<Rightarrow> Inl issues)"

definition ListPagesSchema :: ZodType where
  "ListPagesSchema = ZObject
     [(''limit'', ZDefault (ZNumber True (Some 1) (Some 500)) (JNum 50)),
      (''offset'', ZDefault (ZNumber True (Some 0) None) (JNum 0)),
      (''journal_only'', ZDefault ZBoolean (JBool False)),
      (''namespace'', ZOptional (ZString None None))] True"

definition GetPageSchema :: ZodType where
  "GetPageSchema = ZObject
     [(''name'', ZString (Some 1) None),
      (''include_children'', ZDefault ZBoolean (JBool False))] True"

definition GetPageContentSchema :: ZodType where
  "GetPageContentSchema = ZObject [(''name'', ZString (Some 1) None)] True"

definition CreatePageSchema :: ZodType where
  "CreatePageSchema = ZObject
     [(''name'', ZString (Some 1) None),
      (''content'', ZOptional (ZString None None)),
      (''properties'', ZOptional (ZRecord ZUnknown)),
      (''format'', ZDefault (ZEnum [ascii ''markdown'', ascii ''org'']) (JStr (ascii ''markdown''))),
      (''journal'', ZDefault ZBoolean (JBool False))] True"

definition DeletePageSchema :: ZodType where
  "DeletePageSchema = ZObject [(''name'', ZString (Some 1) None)] True"

definition RenamePageSchema :: ZodType where
  "RenamePageSchema = ZObject
     [(''old_name'', ZString (Some 1) None),
      (''new_name'', ZString (Some 1) None)] True"

definition GetPageLinkedReferencesSchema :: ZodType where
  "GetPageLinkedReferencesSchema = ZObject [(''name'', ZString (Some 1) None)] True"

definition GetBlockSchema :: ZodType where
  "GetBlockSchema = ZObject
     [(''id'', ZString (Some 1) None),
      (''include_children'', ZDefault ZBoolean (JBool False))] True"

definition InsertBlockSchema :: ZodType where
  "InsertBlockSchema = ZObject
     [(''page_or_block'', ZString (Some 1) None),
      (''content'', ZString None None),
      (''sibling'', ZDefault ZBoolean (JBool False)),
      (''before'', ZDefault ZBoolean (JBool False)),
      (''properties'', ZOptional (ZRecord ZUnknown))] True"

definition AppendBlockSchema :: ZodType where
  "AppendBlockSchema = ZObject
     [(''page'', ZString (Some 1) None),
      (''content'', ZString None None),
      (''properties'', ZOptional (ZRecord ZUnknown))] True"

definition UpdateBlockSchema :: ZodType where
  "UpdateBlockSchema = ZObject
     [(''id'', ZString (Some 1) None),
      (''content'', ZString None None),
      (''properties'', ZOptional (ZRecord ZUnknown))] True"

definition RemoveBlockSchema :: ZodType where
  "RemoveBlockSchema = ZObject [(''id'', ZString (Some 1) None)] True"

definition MoveBlockSchema :: ZodType where
  "MoveBlockSchema = ZObject
     [(''src_id'', ZString (Some 1) None),
      (''target_id'', ZString (Some 1) None),
      (''before'', ZDefault ZBoolean (JBool False)),
      (''children'', ZDefault ZBoolean (JBool False))] True"

definition InsertBatchBlockSchema :: ZodType where
  "InsertBatchBlockSchema = ZObject
     [(''page_or_block'', ZString (Some 1) None),
      (''blocks'', ZArray
         (ZObject
            [(''content'', ZString None None),
             (''properties'', ZOptional (ZRecord ZUnknown)),
             (''children'', ZOptional (ZArray
                (ZObject
                   [(''content'', ZString None None),
                    (''properties'', ZOptional (ZRecord ZUnknown))] False)
                None))] False)
         (Some 1)),
      (''sibling'', ZDefault ZBoolean (JBool False))] True"

definition BlockPropertySchema :: ZodType where
  "BlockPropertySchema = ZObject
     [(''id'', ZString (Some 1) None),
      (''key'', ZString (Some 1) None),
      (''value'', ZOptional ZUnknown)] True"

definition SearchSchema :: ZodType where
  "SearchSchema = ZObject [(''query'', ZString (Some 1) (Some 500))] True"

definition CreateJournalSchema :: ZodType where
  "CreateJournalSchema = ZObject [(''date'', ZString (Some 1) None)] True"

definition GetGraphInfoSchema :: ZodType where
  "GetGraphInfoSchema = ZObject [] True"

definition GetAllTagsSchema :: ZodType where
  "GetAllTagsSchema = ZObject [] True"

text \<open>The catalogue of tools, and the schema each is registered with.\<close>

datatype Tool =
    logseq_list_pages
  | logseq_get_page
  | logseq_get_page_content
  | logseq_create_page
  | logseq_delete_page
  | logseq_rename_page
  | logseq_get_page_linked_references
  | logseq_get_block
  | logseq_insert_block
  | logseq_append_block
  | logseq_update_block
  | logseq_remove_block
  | logseq_move_block
  | logseq_insert_batch_blocks
  | logseq_block_property
  | logseq_search
  | logseq_create_journal
  | logseq_get_graph_info
  | logseq_get_all_tags

fun inputSchema :: "Tool \<Rightarrow> ZodType" where
  "inputSchema logseq_list_pages = ListPagesSchema"
| "inputSchema logseq_get_page = GetPageSchema"
| "inputSchema logseq_get_page_content = GetPageContentSchema"
| "inputSchema logseq_create_page = CreatePageSchema"
| "inputSchema logseq_delete_page = DeletePageSchema"
| "inputSchema logseq_rename_page = RenamePageSchema"
| "inputSchema logseq_get_page_linked_references = GetPageLinkedReferencesSchema"
| "inputSchema logseq_get_block = GetBlockSchema"
| "inputSchema logseq_insert_block = InsertBlockSchema"
| "inputSchema logseq_append_block = AppendBlockSchema"
| "inputSchema logseq_update_block = UpdateBlockSchema"
| "inputSchema logseq_remove_block = RemoveBlockSchema"
| "inputSchema logseq_move_block = MoveBlockSchema"
| "inputSchema logseq_insert_batch_blocks = InsertBatchBlockSchema"
| "inputSchema logseq_block_property = BlockPropertySchema"
| "inputSchema logseq_search = SearchSchema"
| "inputSchema logseq_create_journal = CreateJournalSchema"
| "inputSchema logseq_get_graph_info = GetGraphInfoSchema"
| "inputSchema logseq_get_all_tags = GetAllTagsSchema"

section \<open>services/logseq-client.ts\<close>

text \<open>
  What can be thrown: an \<open>Error\<close> (or a subclass: the \<open>TypeError\<close> of a failed
  fetch, the \<open>SyntaxError\<close> of a malformed body) with its message, or a
  \<open>DOMException\<close> with its name and message.
\<close>

datatype thrown = Error jsstring | DOMException jsstring jsstring

datatype 'a settled = Resolved 'a | Rejected thrown

text \<open>
  The network's side of one request. \<open>fetch_at\<close> is the time, in milliseconds after
  the request was sent, at which \<open>fetch\<close> would settle (\<open>None\<close>: never), and
  \<open>fetch_outcome\<close> what it would settle with; \<open>body_at\<close> is the time at which the
  body of the response is completely received, \<open>text_outcome\<close> and \<open>json_outcome\<close> what
  \<open>response.text()\<close> and \<open>response.json()\<close> settle with then. The decoded body has the
  type \<open>'a\<close> that \<open>call\<close> casts it to.
\<close>

record 'a Response =
  status :: nat
  statusText :: jsstring
  body_at :: "nat option"
  text_outcome :: "jsstring settled"
  json_outcome :: "'a settled"

record 'a exchange =
  fetch_at :: "nat option"
  fetch_outcome :: "'a Response settled"

definition ok :: "'a Response \<Rightarrow> bool" where
  "ok response = (200 \<le> status response \<and> status response \<le> 299)"

definition AbortError :: thrown where
  "AbortError = DOMException (ascii ''AbortError'') (ascii ''This operation was aborted'')"

text \<open>
  Awaiting a promise tied to the abort signal whose timer fires \<open>deadline\<close> milliseconds
  after the request: what settles before the timer fires is delivered, everything
  else is rejected with an \<open>AbortError\<close>.
\<close>

definition awaited :: "nat \<Rightarrow> nat option \<Rightarrow> 'a settled \<Rightarrow> 'a settled" where
  "awaited deadline arrival outcome =
     (case arrival of
        Some t \<Rightarrow> if t < deadline then outcome else Rejected AbortError
      | None \<Rightarrow> Rejected AbortError)"

record LogseqApiRequest =
  rpc_method :: jsstring
  args :: "json list"

record HttpRequest =
  url :: jsstring
  verb :: jsstring
  headers :: "(string \<times> jsstring) list"
  body :: LogseqApiRequest

record LogseqClient =
  baseUrl :: jsstring
  token :: jsstring

definition new_LogseqClient :: "jsstring \<Rightarrow> jsstring option \<Rightarrow> LogseqClient" where
  "new_LogseqClient tok base =
     \<lparr>baseUrl = rev (dropWhile (\<lambda>c. c = 0x2F)
                  (rev (case base of Some u \<Rightarrow> u | None \<Rightarrow> DEFAULT_API_URL))),
      token = tok\<rparr>"

text \<open>
  \<open>call\<close>: \<open>api_request\<close> is the one request it hands to \<open>fetch\<close>, and
  \<open>call_outcome\<close> is its \<open>try\<close> block followed by its \<open>catch\<close>: what it returns
  (\<open>Inr\<close>) or throws (\<open>Inl\<close>). \<open>call\<close> pairs the outcome with the requests sent.
\<close>

definition api_request :: "LogseqClient \<Rightarrow> jsstring \<Rightarrow> json list \<Rightarrow> HttpRequest" where
  "api_request c m arguments =
     \<lparr>url = baseUrl c @ ascii ''/api'',
      verb = ascii ''POST'',
      headers = [(''Content-Type'', ascii ''application/json''),
                 (''Authorization'', ascii ''Bearer '' @ token c)],
      body = \<lparr>rpc_method = m, args = arguments\<rparr>\<rparr>"

definition call_outcome :: "'a exchange \<Rightarrow> thrown + 'a" where
  "call_outcome x =
     (let attempt =
            (case awaited REQUEST_TIMEOUT_MS (fetch_at x) (fetch_outcome x) of
               Rejected e \<Rightarrow> Inl e
             | Resolved response \<Rightarrow>
                 if \<not> ok response then
                   (let t = (case awaited REQUEST_TIMEOUT_MS (body_at response)
                                    (text_outcome response) of
                               Resolved s \<Rightarrow> s
                             | Rejected e \<Rightarrow> [])
                    in Inl (Error (ascii ''Logseq API error '' @ show_nat (status response) @
                                   ascii '': '' @
                                   (if t \<noteq> [] then t else statusText response))))
                 else
                   (case awaited REQUEST_TIMEOUT_MS (body_at response)
                           (json_outcome response) of
                      Resolved v \<Rightarrow> Inr v
                    | Rejected e \<Rightarrow> Inl e))
      in (case attempt of
            Inl (DOMException name message) \<Rightarrow>
              if name = ascii ''AbortError''
              then Inl (Error (ascii ''Logseq API request timed out after '' @
                               show_nat REQUEST_TIMEOUT_MS @ ascii ''ms. '' @
                               ascii ''Ensure Logseq is running and the HTTP API server is started.''))
              else Inl (DOMException name message)
          | Inl (Error message) \<Rightarrow> Inl (Error message)
          | Inr v \<Rightarrow> Inr v))"

definition call ::
  "LogseqClient \<Rightarrow> jsstring \<Rightarrow> json list \<Rightarrow> 'a exchange \<Rightarrow> (thrown + 'a) \<times> HttpRequest list" where
  "call c m arguments x = (call_outcome x, [api_request c m arguments])"

text \<open>
  The typed methods. A parameter is the JSON value passed, \<open>None\<close> for
  \<open>undefined\<close>; \<open>JSON.stringify\<close> writes an undefined array element as \<open>null\<close>
  (\<open>arg\<close>) and leaves an undefined member out of an object (\<open>obj\<close>).
\<close>

definition arg :: "json option \<Rightarrow> json" where
  "arg v = (case v of Some x \<Rightarrow> x | None \<Rightarrow> JNull)"

definition obj :: "(string \<times> json option) list \<Rightarrow> json" where
  "obj members = JObj (defined_entries members)"

definition opts_or_empty :: "json option \<Rightarrow> json" where
  "opts_or_empty opts = (case opts of Some x \<Rightarrow> x | None \<Rightarrow> JObj [])"

record SearchResult =
  result_blocks :: "BlockEntity list option"
  result_pages :: "jsstring list option"

record GraphInfo =
  graph_name :: jsstring
  graph_path :: jsstring
  graph_url :: jsstring

definition getAllPages ::
  "LogseqClient \<Rightarrow> PageEntity list exchange \<Rightarrow> (thrown + PageEntity list) \<times> HttpRequest list" where
  "getAllPages c x = call c (ascii ''logseq.Editor.getAllPages'') [] x"

definition getPage ::
  "LogseqClient \<Rightarrow> json option \<Rightarrow> json option \<Rightarrow> PageEntity option exchange \<Rightarrow>
   (thrown + PageEntity option) \<times> HttpRequest list" where
  "getPage c nameOrId opts x =
     call c (ascii ''logseq.Editor.getPage'') [arg nameOrId, opts_or_empty opts] x"

definition getPageBlocksTree ::
  "LogseqClient \<Rightarrow> json option \<Rightarrow> BlockEntity list option exchange \<Rightarrow>
   (thrown + BlockEntity list option) \<times> HttpRequest list" where
  "getPageBlocksTree c pageName x =
     call c (ascii ''logseq.Editor.getPageBlocksTree'') [arg pageName] x"

definition getPageLinkedReferences ::
  "LogseqClient \<Rightarrow> json option \<Rightarrow> (PageEntity \<times> BlockEntity list) list option exchange \<Rightarrow>
   (thrown + (PageEntity \<times> BlockEntity list) list option) \<times> HttpRequest list" where
  "getPageLinkedReferences c pageName x =
     call c (ascii ''logseq.Editor.getPageLinkedReferences'') [arg pageName] x"

text \<open>
  \<open>createPage\<close> sends \<open>{ redirect: false, ...opts }\<close>: the members of \<open>opts\<close>
  overwrite \<open>redirect\<close> in place and follow it otherwise.
\<close>

definition spread_over_redirect :: "(string \<times> json) list option \<Rightarrow> json" where
  "spread_over_redirect opts =
     (let given = (case opts of Some kvs \<Rightarrow> kvs | None \<Rightarrow> [])
      in JObj ((''redirect'', (case map_of given ''redirect'' of Some v \<Rightarrow> v | None \<Rightarrow> JBool False)) #
               filter (\<lambda>kv. fst kv \<noteq> ''redirect'') given))"

definition createPage ::
  "LogseqClient \<Rightarrow> json option \<Rightarrow> json option \<Rightarrow> (string \<times> json) list option \<Rightarrow>
   PageEntity exchange \<Rightarrow> (thrown + PageEntity) \<times> HttpRequest list" where
  "createPage c name_arg props opts x =
     call c (ascii ''logseq.Editor.createPage'')
       [arg name_arg, opts_or_empty props, spread_over_redirect opts] x"

definition deletePage ::
  "LogseqClient \<Rightarrow> json option \<Rightarrow> unit exchange \<Rightarrow> (thrown + unit) \<times> HttpRequest list" where
  "deletePage c name_arg x = call c (ascii ''logseq.Editor.deletePage'') [arg name_arg] x"

definition renamePage ::
  "LogseqClient \<Rightarrow> json option \<Rightarrow> json option \<Rightarrow> unit exchange \<Rightarrow>
   (thrown + unit) \<times> HttpRequest list" where
  "renamePage c oldName newName x =
     call c (ascii ''logseq.Editor.renamePage'') [arg oldName, arg newName] x"

definition getBlock ::
  "LogseqClient \<Rightarrow> json option \<Rightarrow> json option \<Rightarrow> BlockEntity option exchange \<Rightarrow>
   (thrown + BlockEntity option) \<times> HttpRequest list" where
  "getBlock c idOrUuid opts x =
     call c (ascii ''logseq.Editor.getBlock'') [arg idOrUuid, opts_or_empty opts] x"

definition insertBlock ::
  "LogseqClient \<Rightarrow> json option \<Rightarrow> json option \<Rightarrow> json option \<Rightarrow> BlockEntity exchange \<Rightarrow>
   (thrown + BlockEntity) \<times> HttpRequest list" where
  "insertBlock c srcBlock content_arg opts x =
     call c (ascii ''logseq.Editor.insertBlock'')
       [arg srcBlock, arg content_arg, opts_or_empty opts] x"

definition insertBatchBlock ::
  "LogseqClient \<Rightarrow> json option \<Rightarrow> json option \<Rightarrow> json option \<Rightarrow> BlockEntity list exchange \<Rightarrow>
   (thrown + BlockEntity list) \<times> HttpRequest list" where
  "insertBatchBlock c srcBlock batch opts x =
     call c (ascii ''logseq.Editor.insertBatchBlock'')
       [arg srcBlock, arg batch, opts_or_empty opts] x"

definition updateBlock ::
  "LogseqClient \<Rightarrow> json option \<Rightarrow> json option \<Rightarrow> json option \<Rightarrow> unit exchange \<Rightarrow>
   (thrown + unit) \<times> HttpRequest list" where
  "updateBlock c srcBlock content_arg opts x =
     call c (ascii ''logseq.Editor.updateBlock'')
       [arg srcBlock, arg content_arg, opts_or_empty opts] x"

definition removeBlock ::
  "LogseqClient \<Rightarrow> json option \<Rightarrow> unit exchange \<Rightarrow> (thrown + unit) \<times> HttpRequest list" where
  "removeBlock c srcBlock x = call c (ascii ''logseq.Editor.removeBlock'') [arg srcBlock] x"

definition moveBlock ::
  "LogseqClient \<Rightarrow> json option \<Rightarrow> json option \<Rightarrow> json option \<Rightarrow> unit exchange \<Rightarrow>
   (thrown + unit) \<times> HttpRequest list" where
  "moveBlock c srcBlock targetBlock opts x =
     call c (ascii ''logseq.Editor.moveBlock'')
       [arg srcBlock, arg targetBlock, opts_or_empty opts] x"

definition appendBlockInPage ::
  "LogseqClient \<Rightarrow> json option \<Rightarrow> json option \<Rightarrow> json option \<Rightarrow> BlockEntity exchange \<Rightarrow>
   (thrown + BlockEntity) \<times> HttpRequest list" where
  "appendBlockInPage c page_arg content_arg opts x =
     call c (ascii ''logseq.Editor.appendBlockInPage'')
       [arg page_arg, arg content_arg, opts_or_empty opts] x"

definition getBlockProperties ::
  "LogseqClient \<Rightarrow> json option \<Rightarrow> (string \<times> json) list exchange \<Rightarrow>
   (thrown + (string \<times> json) list) \<times> HttpRequest list" where
  "getBlockProperties c blockIdOrUuid x =
     call c (ascii ''logseq.Editor.getBlockProperties'') [arg blockIdOrUuid] x"

definition upsertBlockProperty ::
  "LogseqClient \<Rightarrow> json option \<Rightarrow> json option \<Rightarrow> json option \<Rightarrow> unit exchange \<Rightarrow>
   (thrown + unit) \<times> HttpRequest list" where
  "upsertBlockProperty c blockIdOrUuid key_arg value_arg x =
     call c (ascii ''logseq.Editor.upsertBlockProperty'')
       [arg blockIdOrUuid, arg key_arg, arg value_arg] x"

definition createJournalPage ::
  "LogseqClient \<Rightarrow> json option \<Rightarrow> PageEntity exchange \<Rightarrow>
   (thrown + PageEntity) \<times> HttpRequest list" where
  "createJournalPage c date_arg x =
     call c (ascii ''logseq.Editor.createJournalPage'') [arg date_arg] x"

definition getAllTags ::
  "LogseqClient \<Rightarrow> PageEntity list option exchange \<Rightarrow>
   (thrown + PageEntity list option) \<times> HttpRequest list" where
  "getAllTags c x = call c (ascii ''logseq.Editor.getAllTags'') [] x"

definition search ::
  "LogseqClient \<Rightarrow> json option \<Rightarrow> SearchResult exchange \<Rightarrow>
   (thrown + SearchResult) \<times> HttpRequest list" where
  "search c query x = call c (ascii ''logseq.App.search'') [arg query] x"

definition getCurrentGraph ::
  "LogseqClient \<Rightarrow> GraphInfo option exchange \<Rightarrow>
   (thrown + GraphInfo option) \<times> HttpRequest list" where
  "getCurrentGraph c x = call c (ascii ''logseq.App.getCurrentGraph'') [] x"

section \<open>Built-ins of the platform\<close>

text \<open>
  \<open>JSON.stringify\<close> (with and without indentation) and
  \<open>String.prototype.toLowerCase\<close> are functions of the JavaScript platform, and
  the text that describes the issues of a rejected input is the protocol library's.
  They are parameters of the model: nothing proved below depends on what they return.
\<close>

record platform =
  toLowerCase :: "jsstring \<Rightarrow> jsstring"
  stringify_page :: "PageEntity \<Rightarrow> jsstring"
  stringify_block :: "BlockEntity \<Rightarrow> jsstring"
  stringify_block_compact :: "BlockEntity \<Rightarrow> jsstring"
  stringify_blocks :: "BlockEntity list \<Rightarrow> jsstring"
  stringify_record :: "(string \<times> json) list \<Rightarrow> jsstring"
  stringify_graph :: "GraphInfo \<Rightarrow> jsstring"
  describe_issues :: "Tool \<Rightarrow> ZodIssue list \<Rightarrow> jsstring"

definition startsWith :: "jsstring \<Rightarrow> jsstring \<Rightarrow> bool" where
  "startsWith s searchString = (take (length searchString) s = searchString)"

text \<open>\<open>Array.prototype.slice(start, end)\<close>, negative indices counting from the end.\<close>

definition js_slice :: "'a list \<Rightarrow> int \<Rightarrow> int \<Rightarrow> 'a list" where
  "js_slice xs start stop =
     (let len = int (length xs);
          k = (if start < 0 then max (len + start) 0 else min start len);
          final = (if stop < 0 then max (len + stop) 0 else min stop len)
      in take (nat (final - k)) (drop (nat k) xs))"

definition apostrophe :: jsstring where
  "apostrophe = [0x27]"

text \<open>
  Reading the validated parameters: \<open>param\<close> is the member access \<open>params.k\<close>; the
  typed readers give the member at the type its schema validated it to.
\<close>

definition param :: "json \<Rightarrow> string \<Rightarrow> json option" where
  "param params k = (case params of JObj kvs \<Rightarrow> map_of kvs k | _ \<Rightarrow> None)"

definition str_param :: "json \<Rightarrow> string \<Rightarrow> jsstring" where
  "str_param params k = (case param params k of Some (JStr s) \<Rightarrow> s | _ \<Rightarrow> [])"

definition bool_param :: "json \<Rightarrow> string \<Rightarrow> bool" where
  "bool_param params k = (case param params k of Some (JBool b) \<Rightarrow> b | _ \<Rightarrow> False)"

definition int_param :: "json \<Rightarrow> string \<Rightarrow> int" where
  "int_param params k = (case param params k of Some (JNum q) \<Rightarrow> \<lfloor>q\<rfloor> | _ \<Rightarrow> 0)"

section \<open>services/formatters.ts\<close>

record ToolResult =
  isError :: bool
  content_text :: "jsstring list"

text \<open>The text of the truncation note holds an em dash, code unit \<open>0x2014\<close>.\<close>

definition truncate :: "jsstring \<Rightarrow> jsstring" where
  "truncate text_in =
     (if length text_in \<le> CHARACTER_LIMIT then text_in
      else take CHARACTER_LIMIT text_in @
           newline @ newline @ ascii ''[Response truncated '' @ [0x2014] @ ascii '' '' @
           show_nat (length text_in - CHARACTER_LIMIT) @ ascii '' characters omitted]'')"

definition textResponse :: "jsstring \<Rightarrow> ToolResult" where
  "textResponse text_in = \<lparr>isError = False, content_text = [truncate text_in]\<rparr>"

definition errorResponse :: "jsstring \<Rightarrow> ToolResult" where
  "errorResponse message = \<lparr>isError = True, content_text = [message]\<rparr>"

text \<open>
  \<open>renderBlockTree\<close>: \<open>renderLines\<close> is the array \<open>lines\<close> when the loop over
  \<open>blocks\<close> ends; the rendering of a non-empty child list (the recursive call, which
  joins the children's own array) is pushed as one entry.
\<close>

fun renderLines :: "BlockEntity list \<Rightarrow> nat \<Rightarrow> jsstring list" where
  "renderLines [] depth = []"
| "renderLines (BlockEntity i u c l p pg pr ch f pb # rest) depth =
     (let indent = repeat (ascii ''  '') depth;
          trimmed = map_option trim c
      in (case trimmed of
            Some t \<Rightarrow> if t \<noteq> [] then [indent @ ascii ''- '' @ t] else []
          | None \<Rightarrow> [])
         @ (case ch of
              Some cs \<Rightarrow> if length cs > 0 then [join newline (renderLines cs (depth + 1))] else []
            | None \<Rightarrow> [])
         @ renderLines rest depth)"

definition renderBlockTree :: "BlockEntity list \<Rightarrow> nat \<Rightarrow> jsstring" where
  "renderBlockTree blocks depth = join newline (renderLines blocks depth)"

text \<open>\<open>page.originalName || page.name\<close>, as a template literal renders it.\<close>

definition display_name :: "PageEntity \<Rightarrow> jsstring" where
  "display_name pg =
     (if originalName pg \<noteq> [] then originalName pg
      else (case page_name pg of Some n \<Rightarrow> n | None \<Rightarrow> ascii ''undefined''))"

text \<open>The journal mark is a space and U+1F4C5, which is two code units.\<close>

definition formatPageSummary :: "PageEntity \<Rightarrow> jsstring" where
  "formatPageSummary pg =
     (let journal_mark = (if journal pg then [0x20, 0xD83D, 0xDCC5] else []);
          ns = (case namespace pg of
                  Some i \<Rightarrow> ascii '' (ns: '' @ show_int i @ ascii '')''
                | None \<Rightarrow> [])
      in ascii ''- **'' @ display_name pg @ ascii ''** (uuid: '' @ page_uuid pg @ ascii '')'' @
         journal_mark @ ns)"

definition extractErrorMessage :: "thrown \<Rightarrow> jsstring" where
  "extractErrorMessage error =
     (case error of Error message \<Rightarrow> message | DOMException name message \<Rightarrow> message)"

section \<open>tools/page-tools.ts\<close>

text \<open>
  A handler is given the validated parameters and the network's side of each request
  it may send; it returns its result and the requests it has sent, in order. Each
  body is the handler's \<open>try\<close> block, the \<open>Inl\<close> branch its \<open>catch\<close>.
\<close>

text \<open>The list \<open>pages\<close> of \<open>logseq_list_pages\<close> after its two filters.\<close>

definition filtered_pages :: "platform \<Rightarrow> json \<Rightarrow> PageEntity list \<Rightarrow> PageEntity list" where
  "filtered_pages P params all_pages =
     (let journal_pages =
            (if bool_param params ''journal_only'' then filter journal all_pages
             else all_pages)
      in if str_param params ''namespace'' \<noteq> [] then
           (let pre = toLowerCase P (str_param params ''namespace'')
            in filter (\<lambda>p. startsWith
                             (toLowerCase P (case page_name p of Some n \<Rightarrow> n | None \<Rightarrow> []))
                             (pre @ ascii ''/''))
                 journal_pages)
         else journal_pages)"

definition list_pages_handler ::
  "platform \<Rightarrow> LogseqClient \<Rightarrow> json \<Rightarrow> PageEntity list exchange \<Rightarrow>
   ToolResult \<times> HttpRequest list" where
  "list_pages_handler P c params x =
     (case getAllPages c x of
        (Inl error, sent) \<Rightarrow>
          (errorResponse (ascii ''Failed to list pages: '' @ extractErrorMessage error @
                          ascii ''. '' @
                          ascii ''Ensure Logseq is running with HTTP APIs enabled.''), sent)
      | (Inr all_pages, sent) \<Rightarrow>
          (let pages = filtered_pages P params all_pages;
               total = length pages;
               sliced = js_slice pages (int_param params ''offset'')
                          (int_param params ''offset'' + int_param params ''limit'');
               hasMore = (int_param params ''offset'' + int_param params ''limit'' < int total);
               lines = [ascii ''**Pages** ('' @ show_nat (length sliced) @ ascii '' of '' @
                        show_nat total @ ascii '')'', []] @
                       map formatPageSummary sliced @
                       (if hasMore then
                          [[], ascii ''_More pages available. Use offset='' @
                               show_int (int_param params ''offset'' + int_param params ''limit'') @
                               ascii '' to see next batch._'']
                        else [])
           in (textResponse (join newline lines), sent)))"

definition get_page_handler ::
  "platform \<Rightarrow> LogseqClient \<Rightarrow> json \<Rightarrow> PageEntity option exchange \<Rightarrow>
   ToolResult \<times> HttpRequest list" where
  "get_page_handler P c params x =
     (case getPage c (param params ''name'')
             (Some (obj [(''includeChildren'', param params ''include_children'')])) x of
        (Inl error, sent) \<Rightarrow>
          (errorResponse (ascii ''Failed to get page: '' @ extractErrorMessage error), sent)
      | (Inr None, sent) \<Rightarrow>
          (errorResponse (ascii ''Page '' @ apostrophe @ str_param params ''name'' @ apostrophe @
             ascii '' not found. Use logseq_list_pages to see available pages.''), sent)
      | (Inr (Some pg), sent) \<Rightarrow> (textResponse (stringify_page P pg), sent))"

definition get_page_content_handler ::
  "platform \<Rightarrow> LogseqClient \<Rightarrow> json \<Rightarrow> BlockEntity list option exchange \<Rightarrow>
   ToolResult \<times> HttpRequest list" where
  "get_page_content_handler P c params x =
     (case getPageBlocksTree c (param params ''name'') x of
        (Inl error, sent) \<Rightarrow>
          (errorResponse (ascii ''Failed to get page content: '' @ extractErrorMessage error), sent)
      | (Inr blocks, sent) \<Rightarrow>
          (case blocks of
             Some (b # bs) \<Rightarrow>
               (textResponse (ascii ''# '' @ str_param params ''name'' @ newline @ newline @
                              renderBlockTree (b # bs) 0), sent)
           | _ \<Rightarrow>
               (textResponse (ascii ''Page '' @ apostrophe @ str_param params ''name'' @
                              apostrophe @ ascii '' is empty or has no blocks.''), sent)))"

definition create_page_handler ::
  "platform \<Rightarrow> LogseqClient \<Rightarrow> json \<Rightarrow> PageEntity exchange \<Rightarrow> BlockEntity exchange \<Rightarrow>
   ToolResult \<times> HttpRequest list" where
  "create_page_handler P c params x1 x2 =
     (case createPage c (param params ''name'') (param params ''properties'')
             (Some (defined_entries
                [(''format'', param params ''format''),
                 (''journal'', param params ''journal''),
                 (''redirect'', Some (JBool False))])) x1 of
        (Inl error, sent) \<Rightarrow>
          (errorResponse (ascii ''Failed to create page: '' @ extractErrorMessage error), sent)
      | (Inr pg, sent) \<Rightarrow>
          (let created = textResponse (ascii ''Page '' @ apostrophe @ str_param params ''name'' @
                           apostrophe @ ascii '' created successfully.'' @ newline @ newline @
                           stringify_page P pg)
           in if str_param params ''content'' \<noteq> [] then
                (case appendBlockInPage c (param params ''name'') (param params ''content'')
                        None x2 of
                   (Inl error, sent2) \<Rightarrow>
                     (errorResponse (ascii ''Failed to create page: '' @
                                     extractErrorMessage error), sent @ sent2)
                 | (Inr appended, sent2) \<Rightarrow> (created, sent @ sent2))
              else (created, sent)))"

definition delete_page_handler ::
  "platform \<Rightarrow> LogseqClient \<Rightarrow> json \<Rightarrow> unit exchange \<Rightarrow> ToolResult \<times> HttpRequest list" where
  "delete_page_handler P c params x =
     (case deletePage c (param params ''name'') x of
        (Inl error, sent) \<Rightarrow>
          (errorResponse (ascii ''Failed to delete page: '' @ extractErrorMessage error), sent)
      | (Inr u, sent) \<Rightarrow>
          (textResponse (ascii ''Page '' @ apostrophe @ str_param params ''name'' @ apostrophe @
                         ascii '' deleted successfully.''), sent))"

definition rename_page_handler ::
  "platform \<Rightarrow> LogseqClient \<Rightarrow> json \<Rightarrow> unit exchange \<Rightarrow> ToolResult \<times> HttpRequest list" where
  "rename_page_handler P c params x =
     (case renamePage c (param params ''old_name'') (param params ''new_name'') x of
        (Inl error, sent) \<Rightarrow>
          (errorResponse (ascii ''Failed to rename page: '' @ extractErrorMessage error), sent)
      | (Inr u, sent) \<Rightarrow>
          (textResponse (ascii ''Page renamed from '' @ apostrophe @
                         str_param params ''old_name'' @ apostrophe @ ascii '' to '' @
                         apostrophe @ str_param params ''new_name'' @ apostrophe @
                         ascii ''.''), sent))"

definition linked_reference_lines :: "PageEntity \<times> BlockEntity list \<Rightarrow> jsstring list" where
  "linked_reference_lines r =
     [ascii ''### '' @ display_name (fst r)] @
     map (\<lambda>block. ascii ''  - '' @
            (case content block of Some t \<Rightarrow> trim t | None \<Rightarrow> ascii ''undefined''))
       (snd r) @
     [[]]"

definition get_page_linked_references_handler ::
  "platform \<Rightarrow> LogseqClient \<Rightarrow> json \<Rightarrow> (PageEntity \<times> BlockEntity list) list option exchange \<Rightarrow>
   ToolResult \<times> HttpRequest list" where
  "get_page_linked_references_handler P c params x =
     (case getPageLinkedReferences c (param params ''name'') x of
        (Inl error, sent) \<Rightarrow>
          (errorResponse (ascii ''Failed to get linked references: '' @
                          extractErrorMessage error), sent)
      | (Inr refs, sent) \<Rightarrow>
          (case refs of
             Some (r # rs) \<Rightarrow>
               (textResponse (join newline
                  ([ascii ''**Linked references for '' @ apostrophe @ str_param params ''name'' @
                    apostrophe @ ascii ''** ('' @ show_nat (length (r # rs)) @ ascii '' pages)'' @
                    newline] @
                   concat (map linked_reference_lines (r # rs)))), sent)
           | _ \<Rightarrow>
               (textResponse (ascii ''No linked references found for page '' @ apostrophe @
                              str_param params ''name'' @ apostrophe @ ascii ''.''), sent)))"

section \<open>tools/block-tools.ts\<close>

definition get_block_handler ::
  "platform \<Rightarrow> LogseqClient \<Rightarrow> json \<Rightarrow> BlockEntity option exchange \<Rightarrow>
   ToolResult \<times> HttpRequest list" where
  "get_block_handler P c params x =
     (case getBlock c (param params ''id'')
             (Some (obj [(''includeChildren'', param params ''include_children'')])) x of
        (Inl error, sent) \<Rightarrow>
          (errorResponse (ascii ''Failed to get block: '' @ extractErrorMessage error), sent)
      | (Inr None, sent) \<Rightarrow>
          (errorResponse (ascii ''Block '' @ apostrophe @ str_param params ''id'' @ apostrophe @
             ascii '' not found. Verify the UUID is correct.''), sent)
      | (Inr (Some block), sent) \<Rightarrow>
          (if bool_param params ''include_children'' \<and>
              (case children block of Some cs \<Rightarrow> length cs \<noteq> 0 | None \<Rightarrow> False)
           then
             (textResponse (ascii ''**Block '' @ block_uuid block @ ascii ''**'' @ newline @
                newline @ renderBlockTree [block] 0 @ newline @ newline @ ascii ''---'' @
                newline @ ascii ''Raw:'' @ newline @ stringify_block P block), sent)
           else (textResponse (stringify_block P block), sent)))"

definition insert_block_handler ::
  "platform \<Rightarrow> LogseqClient \<Rightarrow> json \<Rightarrow> BlockEntity exchange \<Rightarrow>
   ToolResult \<times> HttpRequest list" where
  "insert_block_handler P c params x =
     (case insertBlock c (param params ''page_or_block'') (param params ''content'')
             (Some (obj [(''sibling'', param params ''sibling''),
                         (''before'', param params ''before''),
                         (''properties'', param params ''properties'')])) x of
        (Inl error, sent) \<Rightarrow>
          (errorResponse (ascii ''Failed to insert block: '' @ extractErrorMessage error), sent)
      | (Inr block, sent) \<Rightarrow>
          (textResponse (ascii ''Block inserted successfully.'' @ newline @ newline @
                         stringify_block P block), sent))"

definition append_block_handler ::
  "platform \<Rightarrow> LogseqClient \<Rightarrow> json \<Rightarrow> BlockEntity exchange \<Rightarrow>
   ToolResult \<times> HttpRequest list" where
  "append_block_handler P c params x =
     (case appendBlockInPage c (param params ''page'') (param params ''content'')
             (Some (obj [(''properties'', param params ''properties'')])) x of
        (Inl error, sent) \<Rightarrow>
          (errorResponse (ascii ''Failed to append block: '' @ extractErrorMessage error), sent)
      | (Inr block, sent) \<Rightarrow>
          (textResponse (ascii ''Block appended to '' @ apostrophe @ str_param params ''page'' @
                         apostrophe @ ascii ''.'' @ newline @ newline @
                         stringify_block P block), sent))"

definition update_block_handler ::
  "platform \<Rightarrow> LogseqClient \<Rightarrow> json \<Rightarrow> unit exchange \<Rightarrow> ToolResult \<times> HttpRequest list" where
  "update_block_handler P c params x =
     (case updateBlock c (param params ''id'') (param params ''content'')
             (Some (obj [(''properties'', param params ''properties'')])) x of
        (Inl error, sent) \<Rightarrow>
          (errorResponse (ascii ''Failed to update block: '' @ extractErrorMessage error), sent)
      | (Inr u, sent) \<Rightarrow>
          (textResponse (ascii ''Block '' @ apostrophe @ str_param params ''id'' @ apostrophe @
                         ascii '' updated successfully.''), sent))"

definition remove_block_handler ::
  "platform \<Rightarrow> LogseqClient \<Rightarrow> json \<Rightarrow> unit exchange \<Rightarrow> ToolResult \<times> HttpRequest list" where
  "remove_block_handler P c params x =
     (case removeBlock c (param params ''id'') x of
        (Inl error, sent) \<Rightarrow>
          (errorResponse (ascii ''Failed to remove block: '' @ extractErrorMessage error), sent)
      | (Inr u, sent) \<Rightarrow>
          (textResponse (ascii ''Block '' @ apostrophe @ str_param params ''id'' @ apostrophe @
                         ascii '' removed successfully.''), sent))"

definition move_block_handler ::
  "platform \<Rightarrow> LogseqClient \<Rightarrow> json \<Rightarrow> unit exchange \<Rightarrow> ToolResult \<times> HttpRequest list" where
  "move_block_handler P c params x =
     (case moveBlock c (param params ''src_id'') (param params ''target_id'')
             (Some (obj [(''before'', param params ''before''),
                         (''children'', param params ''children'')])) x of
        (Inl error, sent) \<Rightarrow>
          (errorResponse (ascii ''Failed to move block: '' @ extractErrorMessage error), sent)
      | (Inr u, sent) \<Rightarrow>
          (textResponse (ascii ''Block '' @ apostrophe @ str_param params ''src_id'' @
                         apostrophe @ ascii '' moved to '' @ apostrophe @
                         str_param params ''target_id'' @ apostrophe @ ascii ''.''), sent))"

definition insert_batch_blocks_handler ::
  "platform \<Rightarrow> LogseqClient \<Rightarrow> json \<Rightarrow> BlockEntity list exchange \<Rightarrow>
   ToolResult \<times> HttpRequest list" where
  "insert_batch_blocks_handler P c params x =
     (case insertBatchBlock c (param params ''page_or_block'') (param params ''blocks'')
             (Some (obj [(''sibling'', param params ''sibling'')])) x of
        (Inl error, sent) \<Rightarrow>
          (errorResponse (ascii ''Failed to insert batch blocks: '' @
                          extractErrorMessage error), sent)
      | (Inr inserted, sent) \<Rightarrow>
          (textResponse (show_nat (length inserted) @ ascii '' blocks inserted successfully.'' @
                         newline @ newline @ stringify_blocks P inserted), sent))"

definition block_property_handler ::
  "platform \<Rightarrow> LogseqClient \<Rightarrow> json \<Rightarrow> unit exchange \<Rightarrow> (string \<times> json) list exchange \<Rightarrow>
   ToolResult \<times> HttpRequest list" where
  "block_property_handler P c params x_upsert x_get =
     (if param params ''value'' \<noteq> None then
        (case upsertBlockProperty c (param params ''id'') (param params ''key'')
                (param params ''value'') x_upsert of
           (Inl error, sent) \<Rightarrow>
             (errorResponse (ascii ''Failed to access block property: '' @
                             extractErrorMessage error), sent)
         | (Inr u, sent) \<Rightarrow>
             (textResponse (ascii ''Property '' @ apostrophe @ str_param params ''key'' @
                            apostrophe @ ascii '' set on block '' @ apostrophe @
                            str_param params ''id'' @ apostrophe @ ascii ''.''), sent))
      else
        (case getBlockProperties c (param params ''id'') x_get of
           (Inl error, sent) \<Rightarrow>
             (errorResponse (ascii ''Failed to access block property: '' @
                             extractErrorMessage error), sent)
         | (Inr props, sent) \<Rightarrow> (textResponse (stringify_record P props), sent)))"

section \<open>tools/search-graph-tools.ts\<close>

definition search_lines :: "platform \<Rightarrow> jsstring \<Rightarrow> SearchResult \<Rightarrow> jsstring list" where
  "search_lines P query found =
     (let pages = (case result_pages found of Some ps \<Rightarrow> ps | None \<Rightarrow> []);
          blocks = (case result_blocks found of Some bs \<Rightarrow> bs | None \<Rightarrow> [])
      in [ascii ''**Search results for '' @ apostrophe @ query @ apostrophe @ ascii ''**'' @
          newline] @
         (if length pages > 0 then
            [ascii ''### Pages ('' @ show_nat (length pages) @ ascii '')''] @
            map (\<lambda>pg. ascii ''- '' @ pg) pages @ [[]]
          else []) @
         (if length blocks > 0 then
            [ascii ''### Blocks ('' @ show_nat (length blocks) @ ascii '')''] @
            map (\<lambda>block. ascii ''- '' @ stringify_block_compact P block) blocks @ [[]]
          else []) @
         (if length pages = 0 \<and> length blocks = 0 then
            [ascii ''No results found for '' @ apostrophe @ query @ apostrophe @
             ascii ''. Try broader search terms.'']
          else []))"

definition search_handler ::
  "platform \<Rightarrow> LogseqClient \<Rightarrow> json \<Rightarrow> SearchResult exchange \<Rightarrow>
   ToolResult \<times> HttpRequest list" where
  "search_handler P c params x =
     (case search c (param params ''query'') x of
        (Inl error, sent) \<Rightarrow>
          (errorResponse (ascii ''Search failed: '' @ extractErrorMessage error), sent)
      | (Inr found, sent) \<Rightarrow>
          (textResponse (join newline (search_lines P (str_param params ''query'') found)), sent))"

definition create_journal_handler ::
  "platform \<Rightarrow> LogseqClient \<Rightarrow> json \<Rightarrow> PageEntity exchange \<Rightarrow>
   ToolResult \<times> HttpRequest list" where
  "create_journal_handler P c params x =
     (case createJournalPage c (param params ''date'') x of
        (Inl error, sent) \<Rightarrow>
          (errorResponse (ascii ''Failed to create journal page: '' @
                          extractErrorMessage error), sent)
      | (Inr pg, sent) \<Rightarrow>
          (textResponse (ascii ''Journal page created for '' @ apostrophe @
                         str_param params ''date'' @ apostrophe @ ascii ''.'' @ newline @
                         newline @ stringify_page P pg), sent))"

definition get_graph_info_handler ::
  "platform \<Rightarrow> LogseqClient \<Rightarrow> GraphInfo option exchange \<Rightarrow> ToolResult \<times> HttpRequest list" where
  "get_graph_info_handler P c x =
     (case getCurrentGraph c x of
        (Inl error, sent) \<Rightarrow>
          (errorResponse (ascii ''Failed to get graph info: '' @ extractErrorMessage error), sent)
      | (Inr None, sent) \<Rightarrow>
          (errorResponse (ascii ''No graph is currently open in Logseq.''), sent)
      | (Inr (Some graph), sent) \<Rightarrow> (textResponse (stringify_graph P graph), sent))"

definition get_all_tags_handler ::
  "platform \<Rightarrow> LogseqClient \<Rightarrow> PageEntity list option exchange \<Rightarrow>
   ToolResult \<times> HttpRequest list" where
  "get_all_tags_handler P c x =
     (case getAllTags c x of
        (Inl error, sent) \<Rightarrow>
          (errorResponse (ascii ''Failed to get tags: '' @ extractErrorMessage error), sent)
      | (Inr tags, sent) \<Rightarrow>
          (case tags of
             Some (t # ts) \<Rightarrow>
               (textResponse (join newline
                  ([ascii ''**Tags** ('' @ show_nat (length (t # ts)) @ ascii '')'' @ newline] @
                   map (\<lambda>tag. ascii ''- '' @ display_name tag @ ascii '' (uuid: '' @
                                page_uuid tag @ ascii '')'') (t # ts))), sent)
           | _ \<Rightarrow> (textResponse (ascii ''No tags found in the current graph.''), sent)))"

section \<open>index.ts: the registered tools\<close>

text \<open>
  One invocation of a tool, seen from the network: the tool that is invoked, and the
  network's side of each request its handler may send.
\<close>

datatype Remote =
    list_pages "PageEntity list exchange"
  | get_page "PageEntity option exchange"
  | get_page_content "BlockEntity list option exchange"
  | create_page "PageEntity exchange" "BlockEntity exchange"
  | delete_page "unit exchange"
  | rename_page "unit exchange"
  | get_page_linked_references "(PageEntity \<times> BlockEntity list) list option exchange"
  | get_block "BlockEntity option exchange"
  | insert_block "BlockEntity exchange"
  | append_block "BlockEntity exchange"
  | update_block "unit exchange"
  | remove_block "unit exchange"
  | move_block "unit exchange"
  | insert_batch_blocks "BlockEntity list exchange"
  | block_property "unit exchange" "(string \<times> json) list exchange"
  | search_graph "SearchResult exchange"
  | create_journal "PageEntity exchange"
  | get_graph_info "GraphInfo option exchange"
  | get_all_tags "PageEntity list option exchange"

fun tool_of :: "Remote \<Rightarrow> Tool" where
  "tool_of (list_pages x) = logseq_list_pages"
| "tool_of (get_page x) = logseq_get_page"
| "tool_of (get_page_content x) = logseq_get_page_content"
| "tool_of (create_page x1 x2) = logseq_create_page"
| "tool_of (delete_page x) = logseq_delete_page"
| "tool_of (rename_page x) = logseq_rename_page"
| "tool_of (get_page_linked_references x) = logseq_get_page_linked_references"
| "tool_of (get_block x) = logseq_get_block"
| "tool_of (insert_block x) = logseq_insert_block"
| "tool_of (append_block x) = logseq_append_block"
| "tool_of (update_block x) = logseq_update_block"
| "tool_of (remove_block x) = logseq_remove_block"
| "tool_of (move_block x) = logseq_move_block"
| "tool_of (insert_batch_blocks x) = logseq_insert_batch_blocks"
| "tool_of (block_property x1 x2) = logseq_block_property"
| "tool_of (search_graph x) = logseq_search"
| "tool_of (create_journal x) = logseq_create_journal"
| "tool_of (get_graph_info x) = logseq_get_graph_info"
| "tool_of (get_all_tags x) = logseq_get_all_tags"

text \<open>The handler registered for each tool, run on validated parameters.\<close>

fun handler ::
  "platform \<Rightarrow> LogseqClient \<Rightarrow> json \<Rightarrow> Remote \<Rightarrow> ToolResult \<times> HttpRequest list" where
  "handler P c params (list_pages x) = list_pages_handler P c params x"
| "handler P c params (get_page x) = get_page_handler P c params x"
| "handler P c params (get_page_content x) = get_page_content_handler P c params x"
| "handler P c params (create_page x1 x2) = create_page_handler P c params x1 x2"
| "handler P c params (delete_page x) = delete_page_handler P c params x"
| "handler P c params (rename_page x) = rename_page_handler P c params x"
| "handler P c params (get_page_linked_references x) =
     get_page_linked_references_handler P c params x"
| "handler P c params (get_block x) = get_block_handler P c params x"
| "handler P c params (insert_block x) = insert_block_handler P c params x"
| "handler P c params (append_block x) = append_block_handler P c params x"
| "handler P c params (update_block x) = update_block_handler P c params x"
| "handler P c params (remove_block x) = remove_block_handler P c params x"
| "handler P c params (move_block x) = move_block_handler P c params x"
| "handler P c params (insert_batch_blocks x) = insert_batch_blocks_handler P c params x"
| "handler P c params (block_property x1 x2) = block_property_handler P c params x1 x2"
| "handler P c params (search_graph x) = search_handler P c params x"
| "handler P c params (create_journal x) = create_journal_handler P c params x"
| "handler P c params (get_graph_info x) = get_graph_info_handler P c x"
| "handler P c params (get_all_tags x) = get_all_tags_handler P c x"

text \<open>
  Modelled from the spec: the protocol library that \<open>registerTool\<close> hands a tool's
  schema and handler to is a dependency of the repository and not among its sources.
  By sections 4.1 and 7 of the specification it validates the raw parameters against
  the tool's input schema first; a validation failure is reported as a marked failure
  result that describes the violated constraints, and the handler is not run.
\<close>

definition invoke ::
  "platform \<Rightarrow> LogseqClient \<Rightarrow> json \<Rightarrow> Remote \<Rightarrow> ToolResult \<times> HttpRequest list" where
  "invoke P c raw r =
     (case validate (inputSchema (tool_of r)) raw of
        Inl issues \<Rightarrow> (errorResponse (describe_issues P (tool_of r) issues), [])
      | Inr params \<Rightarrow> handler P c params r)"

section \<open>Reference definitions\<close>

text \<open>The number that a string of decimal digits states.\<close>

definition decimal :: "jsstring \<Rightarrow> nat" where
  "decimal s = foldl (\<lambda>a c. 10 * a + (unat c - 48)) 0 s"

text \<open>
  What the specification says of the outline, in its own words: one line per node
  whose content is not empty, indented by two spaces per level of depth, the lines of
  a node's children following the node's own, one level deeper.
\<close>

fun outline :: "BlockEntity list \<Rightarrow> nat \<Rightarrow> jsstring list" where
  "outline [] depth = []"
| "outline (BlockEntity i u c l p pg pr cs f pb # rest) depth =
     (case map_option trim c of
        Some t \<Rightarrow> if t \<noteq> [] then [repeat (ascii ''  '') depth @ ascii ''- '' @ t] else []
      | None \<Rightarrow> [])
     @ (case cs of Some xs \<Rightarrow> outline xs (depth + 1) | None \<Rightarrow> [])
     @ outline rest depth"

text \<open>
  \<open>hollow_free\<close>: no node has a non-empty list of children whose outline is empty;
  \<open>silent\<close>: the outline of the blocks is empty.
\<close>

fun hollow_free :: "BlockEntity list \<Rightarrow> bool" where
  "hollow_free [] = True"
| "hollow_free (BlockEntity i u c l p pg pr cs f pb # rest) =
     ((case cs of
         Some xs \<Rightarrow> (if xs \<noteq> [] then outline xs 0 \<noteq> [] else True) \<and> hollow_free xs
       | None \<Rightarrow> True)
      \<and> hollow_free rest)"

fun silent :: "BlockEntity list \<Rightarrow> bool" where
  "silent [] = True"
| "silent (BlockEntity i u c l p pg pr cs f pb # rest) =
     ((case map_option trim c of Some t \<Rightarrow> t = [] | None \<Rightarrow> True) \<and>
      (case cs of Some xs \<Rightarrow> silent xs | None \<Rightarrow> True) \<and> silent rest)"

text \<open>
  What a schema declares: the keys it recognizes, those it requires (their schema
  accepts no absent value), and those declared as non-empty strings.
\<close>

fun shape_of :: "ZodType \<Rightarrow> (string \<times> ZodType) list" where
  "shape_of (ZObject shape strict) = shape"
| "shape_of other = []"

fun is_required :: "ZodType \<Rightarrow> bool" where
  "is_required (ZOptional t) = False"
| "is_required (ZDefault t d) = False"
| "is_required ZUnknown = False"
| "is_required other = True"

fun is_nonempty_string :: "ZodType \<Rightarrow> bool" where
  "is_nonempty_string (ZString (Some m) hi) = (0 < m)"
| "is_nonempty_string other = False"

definition recognized :: "Tool \<Rightarrow> string list" where
  "recognized t = map fst (shape_of (inputSchema t))"

definition required :: "Tool \<Rightarrow> string list" where
  "required t = map fst (filter (\<lambda>kt. is_required (snd kt)) (shape_of (inputSchema t)))"

definition nonempty_strings :: "Tool \<Rightarrow> string list" where
  "nonempty_strings t =
     map fst (filter (\<lambda>kt. is_nonempty_string (snd kt)) (shape_of (inputSchema t)))"

text \<open>
  The violations of a declared constraint that the specification lists: a number
  outside its bounds (the pagination limit below 1 or above 500, a negative offset), an
  empty string where a non-empty one is required, a missing required field, and a
  field that the operation does not recognize.
\<close>

definition number_outside :: "(string \<times> json) list \<Rightarrow> string \<Rightarrow> rat option \<Rightarrow> rat option \<Rightarrow> bool" where
  "number_outside kvs k lo hi =
     (case map_of kvs k of
        Some (JNum q) \<Rightarrow>
          (case lo of Some m \<Rightarrow> q < m | None \<Rightarrow> False) \<or>
          (case hi of Some m \<Rightarrow> m < q | None \<Rightarrow> False)
      | _ \<Rightarrow> False)"

definition violates :: "Tool \<Rightarrow> json \<Rightarrow> bool" where
  "violates t raw =
     (case raw of
        JObj kvs \<Rightarrow>
          (t = logseq_list_pages \<and> number_outside kvs ''limit'' (Some 1) (Some 500))
          \<or> (t = logseq_list_pages \<and> number_outside kvs ''offset'' (Some 0) None)
          \<or> (\<exists>k\<in>set (nonempty_strings t). map_of kvs k = Some (JStr []))
          \<or> (\<exists>k\<in>set (required t). map_of kvs k = None)
          \<or> (\<exists>k\<in>set (map fst kvs). k \<notin> set (recognized t))
      | _ \<Rightarrow> False)"

text \<open>
  A valid input of \<open>logseq_list_pages\<close> as its description documents it: an object
  with no other key than the four parameters, \<open>limit\<close> an integer from 1 to 500,
  \<open>offset\<close> a non-negative integer, \<open>journal_only\<close> a boolean and \<open>namespace\<close> a
  string, each of them optional.
\<close>

definition valid_list_pages_input :: "json \<Rightarrow> bool" where
  "valid_list_pages_input raw =
     (case raw of
        JObj kvs \<Rightarrow>
          (\<forall>k\<in>set (map fst kvs). k \<in> set [''limit'', ''offset'', ''journal_only'', ''namespace''])
          \<and> (case map_of kvs ''limit'' of
                None \<Rightarrow> True
              | Some (JNum q) \<Rightarrow> is_integer q \<and> 1 \<le> q \<and> q \<le> 500
              | Some other \<Rightarrow> False)
          \<and> (case map_of kvs ''offset'' of
                None \<Rightarrow> True
              | Some (JNum q) \<Rightarrow> is_integer q \<and> 0 \<le> q
              | Some other \<Rightarrow> False)
          \<and> (case map_of kvs ''journal_only'' of
                None \<Rightarrow> True
              | Some (JBool b) \<Rightarrow> True
              | Some other \<Rightarrow> False)
          \<and> (case map_of kvs ''namespace'' of
                None \<Rightarrow> True
              | Some (JStr s) \<Rightarrow> True
              | Some other \<Rightarrow> False)
      | _ \<Rightarrow> False)"

definition or_default :: "json option \<Rightarrow> json \<Rightarrow> json" where
  "or_default v d = (case v of Some x \<Rightarrow> x | None \<Rightarrow> d)"


text \<open>
  A request that receives no reply within the timeout: \<open>fetch\<close> does not settle, or
  settles later than \<open>REQUEST_TIMEOUT_MS\<close> after the request. A response whose
  status arrived in time is a reply, whenever its body follows.
\<close>

definition timed_out :: "'a exchange \<Rightarrow> bool" where
  "timed_out x = (case fetch_at x of None \<Rightarrow> True | Some t \<Rightarrow> REQUEST_TIMEOUT_MS < t)"

text \<open>An invocation none of whose requests receives a reply within the timeout.\<close>

fun unanswered :: "Remote \<Rightarrow> bool" where
  "unanswered (list_pages x) = timed_out x"
| "unanswered (get_page x) = timed_out x"
| "unanswered (get_page_content x) = timed_out x"
| "unanswered (create_page x1 x2) = (timed_out x1 \<and> timed_out x2)"
| "unanswered (delete_page x) = timed_out x"
| "unanswered (rename_page x) = timed_out x"
| "unanswered (get_page_linked_references x) = timed_out x"
| "unanswered (get_block x) = timed_out x"
| "unanswered (insert_block x) = timed_out x"
| "unanswered (append_block x) = timed_out x"
| "unanswered (update_block x) = timed_out x"
| "unanswered (remove_block x) = timed_out x"
| "unanswered (move_block x) = timed_out x"
| "unanswered (insert_batch_blocks x) = timed_out x"
| "unanswered (block_property x1 x2) = (timed_out x1 \<and> timed_out x2)"
| "unanswered (search_graph x) = timed_out x"
| "unanswered (create_journal x) = timed_out x"
| "unanswered (get_graph_info x) = timed_out x"
| "unanswered (get_all_tags x) = timed_out x"

text \<open>
  The other two failures of a remote call: a reply with a status outside 200 to 299,
  and a reply with a status from 200 to 299 whose body, received in time, does not
  parse as JSON.
\<close>

definition in_time :: "nat option \<Rightarrow> bool" where
  "in_time arrival = (case arrival of Some t \<Rightarrow> t < REQUEST_TIMEOUT_MS | None \<Rightarrow> False)"

definition non_2xx :: "'a exchange \<Rightarrow> bool" where
  "non_2xx x =
     (in_time (fetch_at x) \<and>
      (case fetch_outcome x of Resolved response \<Rightarrow> \<not> ok response | Rejected e \<Rightarrow> False))"

definition malformed :: "'a exchange \<Rightarrow> bool" where
  "malformed x =
     (in_time (fetch_at x) \<and>
      (case fetch_outcome x of
         Resolved response \<Rightarrow>
           ok response \<and> in_time (body_at response) \<and>
           (case json_outcome response of Rejected e \<Rightarrow> True | Resolved v \<Rightarrow> False)
       | Rejected e \<Rightarrow> False))"

text \<open>What the first failing call of an invocation throws, if one fails.\<close>

definition failure :: "'a exchange \<Rightarrow> thrown option" where
  "failure x = (case call_outcome x of Inl e \<Rightarrow> Some e | Inr v \<Rightarrow> None)"

fun thrown_by :: "json \<Rightarrow> Remote \<Rightarrow> thrown option" where
  "thrown_by params (list_pages x) = failure x"
| "thrown_by params (get_page x) = failure x"
| "thrown_by params (get_page_content x) = failure x"
| "thrown_by params (create_page x1 x2) =
     (case failure x1 of
        Some e \<Rightarrow> Some e
      | None \<Rightarrow> if str_param params ''content'' \<noteq> [] then failure x2 else None)"
| "thrown_by params (delete_page x) = failure x"
| "thrown_by params (rename_page x) = failure x"
| "thrown_by params (get_page_linked_references x) = failure x"
| "thrown_by params (get_block x) = failure x"
| "thrown_by params (insert_block x) = failure x"
| "thrown_by params (append_block x) = failure x"
| "thrown_by params (update_block x) = failure x"
| "thrown_by params (remove_block x) = failure x"
| "thrown_by params (move_block x) = failure x"
| "thrown_by params (insert_batch_blocks x) = failure x"
| "thrown_by params (block_property x1 x2) =
     (if param params ''value'' \<noteq> None then failure x1 else failure x2)"
| "thrown_by params (search_graph x) = failure x"
| "thrown_by params (create_journal x) = failure x"
| "thrown_by params (get_graph_info x) = failure x"
| "thrown_by params (get_all_tags x) = failure x"

text \<open>
  The one invocation that sends a second request: \<open>logseq_create_page\<close> with initial
  content, once the page is created.
\<close>

fun appends_content :: "json \<Rightarrow> Remote \<Rightarrow> bool" where
  "appends_content params (create_page x1 x2) =
     (str_param params ''content'' \<noteq> [] \<and> failure x1 = None)"
| "appends_content params other = False"

text \<open>Values for the examples: a platform, a client, and a network that replies.\<close>

definition example_platform :: platform where
  "example_platform =
     \<lparr>toLowerCase = (\<lambda>s. s),
      stringify_page = (\<lambda>v. ascii ''{}''),
      stringify_block = (\<lambda>v. ascii ''{}''),
      stringify_block_compact = (\<lambda>v. ascii ''{}''),
      stringify_blocks = (\<lambda>v. ascii ''[]''),
      stringify_record = (\<lambda>v. ascii ''{}''),
      stringify_graph = (\<lambda>v. ascii ''{}''),
      describe_issues = (\<lambda>t issues. ascii ''Invalid arguments'')\<rparr>"

definition example_client :: LogseqClient where
  "example_client = new_LogseqClient (ascii ''secret'') None"

definition replying_at :: "nat \<Rightarrow> 'a \<Rightarrow> 'a exchange" where
  "replying_at t v =
     \<lparr>fetch_at = Some t,
      fetch_outcome = Resolved
        \<lparr>status = 200, statusText = ascii ''OK'', body_at = Some (t + 1),
         text_outcome = Resolved [], json_outcome = Resolved v\<rparr>\<rparr>"

definition replying :: "'a \<Rightarrow> 'a exchange" where
  "replying v = replying_at 5 v"

definition never_replying :: "'a exchange" where
  "never_replying = \<lparr>fetch_at = None, fetch_outcome = Rejected (Error [])\<rparr>"

definition error_reply :: "'a exchange" where
  "error_reply =
     \<lparr>fetch_at = Some 5,
      fetch_outcome = Resolved
        \<lparr>status = 500, statusText = ascii ''Internal Server Error'', body_at = Some 6,
         text_outcome = Resolved [],
         json_outcome = Rejected (Error (ascii ''Unexpected end of JSON input''))\<rparr>\<rparr>"

definition example_page :: "jsstring \<Rightarrow> PageEntity" where
  "example_page n =
     \<lparr>page_id = 1, page_uuid = ascii ''u1'', page_name = Some n, originalName = n,
      journal = False, page_file = None, namespace = None, page_properties = None,
      createdAt = None, updatedAt = None, page_format = None\<rparr>"

definition example_block :: "jsstring \<Rightarrow> BlockEntity" where
  "example_block t = BlockEntity 2 (ascii ''u2'') (Some t) 1 1 1 None None None None"

section \<open>The response renderer\<close>

lemma digit_value:
  assumes "d < 10"
  shows "unat (of_nat (48 + d) :: jschar) - 48 = d"
proof -
  have "unat (of_nat (48 + d) :: jschar) = (48 + d) mod 2 ^ LENGTH(16)"
    by (simp only: unat_of_nat)
  also have "\<dots> = 48 + d" using assms by simp
  finally show ?thesis by simp
qed

lemma decimal_show_nat: "decimal (show_nat n) = n"
proof (induction n rule: show_nat.induct)
  case (1 n)
  show ?case
  proof (cases "n < 10")
    case True
    then show ?thesis
      by (subst show_nat.simps) (simp add: decimal_def digit_value del: of_nat_add)
  next
    case False
    have "n mod 10 < 10" by simp
    then have d: "unat (of_nat (48 + n mod 10) :: jschar) - 48 = n mod 10" by (rule digit_value)
    have "decimal (show_nat n) = 10 * decimal (show_nat (n div 10)) + n mod 10"
      using False d by (subst show_nat.simps) (simp add: decimal_def del: of_nat_add)
    then show ?thesis using 1 False by simp
  qed
qed


text \<open>
  C1. A response string of more than 100,000 code units is rendered as its first
  100,000 code units followed by the note that states how many were omitted: the
  decimal digits of its length minus 100,000.
\<close>

theorem truncate_over_limit:
  assumes "100000 < length t"
  shows "textResponse t =
     \<lparr>isError = False,
      content_text = [take 100000 t @ [0x0A, 0x0A] @ ascii ''[Response truncated '' @
        [0x2014] @ ascii '' '' @ show_nat (length t - 100000) @
        ascii '' characters omitted]'']\<rparr>
     \<and> decimal (show_nat (length t - 100000)) = length t - 100000"
  using assms
  by (simp add: textResponse_def truncate_def CHARACTER_LIMIT_def newline_def decimal_show_nat)

theorem truncate_over_limit_witness:
  "100000 < length (replicate 100001 (0x61 :: jschar)) \<and>
   textResponse (replicate 100001 0x61) =
     \<lparr>isError = False,
      content_text = [replicate 100000 0x61 @ [0x0A, 0x0A] @ ascii ''[Response truncated '' @
        [0x2014] @ ascii '' 1 characters omitted]'']\<rparr>"
  using truncate_over_limit [of "replicate 100001 0x61"]
  by (simp add: show_nat.simps ascii_def)

text \<open>
  C3. The tree of one node with content A and one child with content B, rendered at
  depth 0, is the two lines \<open>- A\<close> and \<open>- B\<close>, the second indented by two spaces.
  The fields of the blocks that the renderer does not read are arbitrary.
\<close>

theorem renderBlockTree_example:
  "renderBlockTree
     [BlockEntity i u (Some (ascii ''A'')) l p pg pr
        (Some [BlockEntity i' u' (Some (ascii ''B'')) l' p' pg' pr' None f' pb']) f pb] 0
   = ascii ''- A'' @ newline @ ascii ''  - B''"
  by (simp add: renderBlockTree_def repeat_def trim_def is_js_whitespace_def ascii_def
      newline_def)

subsection \<open>Trimming and joining\<close>

lemma dropWhile_all_iff: "(\<forall>x\<in>set (dropWhile P xs). P x) \<longleftrightarrow> (\<forall>x\<in>set xs. P x)"
proof
  assume a: "\<forall>x\<in>set (dropWhile P xs). P x"
  have "dropWhile P xs = []"
  proof (rule ccontr)
    assume n: "dropWhile P xs \<noteq> []"
    then have "\<not> P (hd (dropWhile P xs))" by (rule hd_dropWhile)
    moreover have "hd (dropWhile P xs) \<in> set (dropWhile P xs)" using n by (rule hd_in_set)
    ultimately show False using a by blast
  qed
  then show "\<forall>x\<in>set xs. P x" by simp
next
  assume "\<forall>x\<in>set xs. P x"
  then have "dropWhile P xs = []" by simp
  then show "\<forall>x\<in>set (dropWhile P xs). P x" by (simp only: list.set ball_empty)
qed

lemma trim_eq_Nil_iff: "trim t = [] \<longleftrightarrow> (\<forall>ch\<in>set t. is_js_whitespace ch)"
  by (simp add: trim_def dropWhile_all_iff)

lemma trim_decompose:
  "t = takeWhile is_js_whitespace t @ trim t @
       rev (takeWhile is_js_whitespace (rev (dropWhile is_js_whitespace t)))"
proof -
  let ?d = "dropWhile is_js_whitespace t"
  have "rev ?d = takeWhile is_js_whitespace (rev ?d) @ dropWhile is_js_whitespace (rev ?d)"
    by simp
  then have "?d = rev (dropWhile is_js_whitespace (rev ?d)) @ rev (takeWhile is_js_whitespace (rev ?d))"
    by (metis rev_append rev_rev_ident)
  then have "?d = trim t @ rev (takeWhile is_js_whitespace (rev ?d))"
    by (simp add: trim_def)
  moreover have "t = takeWhile is_js_whitespace t @ ?d" by simp
  ultimately show ?thesis by metis
qed

lemma last_dropWhile: "dropWhile P xs \<noteq> [] \<Longrightarrow> last (dropWhile P xs) = last xs"
  by (induction xs) (auto split: if_splits)

lemma trim_ends:
  assumes "trim t \<noteq> []"
  shows "\<not> is_js_whitespace (hd (trim t)) \<and> \<not> is_js_whitespace (last (trim t))"
proof -
  let ?d = "dropWhile is_js_whitespace t"
  let ?e = "dropWhile is_js_whitespace (rev ?d)"
  have e: "?e \<noteq> []" using assms by (simp add: trim_def del: dropWhile_eq_Nil_conv)
  have d: "?d \<noteq> []"
  proof
    assume "?d = []"
    then have "?e = []" by (simp only: rev.simps dropWhile.simps)
    with e show False by blast
  qed
  have "last (trim t) = hd ?e" using e by (simp only: trim_def last_rev)
  then have l: "\<not> is_js_whitespace (last (trim t))" using hd_dropWhile[OF e] by simp
  have nd: "\<not> is_js_whitespace (hd ?d)" using hd_dropWhile[OF d] .
  have "last ?e = last (rev ?d)" using e by (rule last_dropWhile)
  also have "\<dots> = hd ?d" using d by (simp only: last_rev)
  finally have "hd (trim t) = hd ?d" using e by (simp only: trim_def hd_rev)
  then show ?thesis using l nd by simp
qed

lemma join_append:
  "join sep (xs @ ys) =
     (if xs = [] then join sep ys else if ys = [] then join sep xs
      else join sep xs @ sep @ join sep ys)"
proof (induction sep xs rule: join.induct)
  case (1 sep) then show ?case by simp
next
  case (2 sep x) then show ?case by (cases ys) auto
next
  case (3 sep x y ys) then show ?case by auto
qed

text \<open>
  C10. The renderer trims a node's content before it emits the node's line: the line
  is the indentation, the bullet and the content without the whitespace at its two
  ends. A node whose content is absent or only whitespace is rendered exactly as the
  node with the empty content: it has no line of its own, and alone it renders as its
  children do one level deeper.
\<close>

theorem renderBlockTree_trims_content:
  "((\<exists>w\<in>set t. \<not> is_js_whitespace w) \<longrightarrow>
      renderLines (BlockEntity i u (Some t) l p pg pr cs f pb # rest) depth =
        (repeat (ascii ''  '') depth @ ascii ''- '' @ trim t) #
        renderLines (BlockEntity i u None l p pg pr cs f pb # rest) depth
      \<and> \<not> is_js_whitespace (hd (trim t)) \<and> \<not> is_js_whitespace (last (trim t))
      \<and> (\<exists>pre suf. t = pre @ trim t @ suf \<and> (\<forall>w\<in>set pre. is_js_whitespace w)
            \<and> (\<forall>w\<in>set suf. is_js_whitespace w)))
   \<and> ((c = None \<or> (\<exists>s. c = Some s \<and> (\<forall>w\<in>set s. is_js_whitespace w))) \<longrightarrow>
      renderLines (BlockEntity i u c l p pg pr cs f pb # rest) depth =
        renderLines (BlockEntity i u (Some []) l p pg pr cs f pb # rest) depth
      \<and> renderBlockTree [BlockEntity i u c l p pg pr cs f pb] depth =
        (case cs of Some (x # xs) \<Rightarrow> renderBlockTree (x # xs) (depth + 1) | _ \<Rightarrow> []))"
proof (intro conjI impI)
  assume a: "\<exists>w\<in>set t. \<not> is_js_whitespace w"
  then have ne: "trim t \<noteq> []" by (simp add: trim_eq_Nil_iff)
  then show "renderLines (BlockEntity i u (Some t) l p pg pr cs f pb # rest) depth =
        (repeat (ascii ''  '') depth @ ascii ''- '' @ trim t) #
        renderLines (BlockEntity i u None l p pg pr cs f pb # rest) depth"
    by simp
  show "\<not> is_js_whitespace (hd (trim t))" "\<not> is_js_whitespace (last (trim t))"
    using trim_ends[OF ne] by simp_all
  have "t = takeWhile is_js_whitespace t @ trim t @
       rev (takeWhile is_js_whitespace (rev (dropWhile is_js_whitespace t)))"
    by (rule trim_decompose)
  moreover have "\<forall>w\<in>set (takeWhile is_js_whitespace t). is_js_whitespace w"
    by (auto dest: set_takeWhileD)
  moreover have "\<forall>w\<in>set (rev (takeWhile is_js_whitespace (rev (dropWhile is_js_whitespace t)))).
      is_js_whitespace w"
    by (auto dest: set_takeWhileD)
  ultimately show "\<exists>pre suf. t = pre @ trim t @ suf \<and> (\<forall>w\<in>set pre. is_js_whitespace w)
            \<and> (\<forall>w\<in>set suf. is_js_whitespace w)"
    by blast
next
  assume b: "c = None \<or> (\<exists>s. c = Some s \<and> (\<forall>w\<in>set s. is_js_whitespace w))"
  then have blank: "(case map_option trim c of Some t \<Rightarrow> if t \<noteq> [] then [X t] else [] | None \<Rightarrow> []) = []" for X :: "jsstring \<Rightarrow> jsstring"
    by (auto simp: trim_eq_Nil_iff)
  show "renderLines (BlockEntity i u c l p pg pr cs f pb # rest) depth =
        renderLines (BlockEntity i u (Some []) l p pg pr cs f pb # rest) depth"
    using blank by (simp add: trim_def)
  show "renderBlockTree [BlockEntity i u c l p pg pr cs f pb] depth =
        (case cs of Some (x # xs) \<Rightarrow> renderBlockTree (x # xs) (depth + 1) | _ \<Rightarrow> [])"
    using b by (auto simp: renderBlockTree_def trim_eq_Nil_iff split: option.splits list.splits)
qed

theorem renderBlockTree_trims_content_witness:
  "renderLines [BlockEntity 7 [] (Some (ascii '' A '')) 0 0 0 None None None None] 1 =
     [ascii ''  - A'']
   \<and> renderBlockTree
       [BlockEntity 7 [] (Some (ascii ''  '')) 0 0 0 None
          (Some [BlockEntity 8 [] (Some (ascii ''B'')) 0 0 0 None None None None]) None None] 0 =
     ascii ''  - B''"
proof -
  have h1: "\<exists>w\<in>set (ascii '' A ''). \<not> is_js_whitespace w"
    by (simp add: ascii_def is_js_whitespace_def)
  have h2: "Some (ascii ''  '') = None \<or>
      (\<exists>s. Some (ascii ''  '') = Some s \<and> (\<forall>w\<in>set s. is_js_whitespace w))"
    by (simp add: ascii_def is_js_whitespace_def)
  have r1: "renderLines [BlockEntity 7 [] (Some (ascii '' A '')) 0 0 0 None None None None] 1 =
      (repeat (ascii ''  '') 1 @ ascii ''- '' @ trim (ascii '' A '')) #
      renderLines [BlockEntity 7 [] None 0 0 0 None None None None] 1"
    using renderBlockTree_trims_content [of "ascii '' A ''" 7 "[]" 0 0 0 None None None None
        "[]" 1 None] h1
    by blast
  have r2: "renderBlockTree
       [BlockEntity 7 [] (Some (ascii ''  '')) 0 0 0 None
          (Some [BlockEntity 8 [] (Some (ascii ''B'')) 0 0 0 None None None None]) None None] 0 =
      renderBlockTree [BlockEntity 8 [] (Some (ascii ''B'')) 0 0 0 None None None None] (0 + 1)"
    using renderBlockTree_trims_content [of "[]" 7 "[]" 0 0 0 None
        "Some [BlockEntity 8 [] (Some (ascii ''B'')) 0 0 0 None None None None]" None None
        "[]" 0 "Some (ascii ''  '')"] h2
    by simp
  have e1: "(repeat (ascii ''  '') 1 @ ascii ''- '' @ trim (ascii '' A '')) #
      renderLines [BlockEntity 7 [] None 0 0 0 None None None None] 1 = [ascii ''  - A'']"
    by (simp add: ascii_def is_js_whitespace_def trim_def repeat_def)
  have e2: "renderBlockTree [BlockEntity 8 [] (Some (ascii ''B'')) 0 0 0 None None None None]
      (0 + 1) = ascii ''  - B''"
    by (simp add: ascii_def is_js_whitespace_def trim_def repeat_def renderBlockTree_def)
  show ?thesis using r1 r2 e1 e2 by (simp only:)
qed

subsection \<open>The outline of the specification\<close>

lemma join_Cons: "ys \<noteq> [] \<Longrightarrow> join sep (x # ys) = x @ sep @ join sep ys"
  by (cases ys) auto

lemma outline_Nil_iff: "outline bs d = [] \<longleftrightarrow> silent bs"
  by (induction bs d rule: outline.induct) (simp_all split: option.splits)

lemma outline_empty_depth: "outline bs d = [] \<longleftrightarrow> outline bs d' = []"
  by (simp add: outline_Nil_iff)

lemma renderBlockTree_outline:
  "hollow_free bs \<Longrightarrow>
     join newline (renderLines bs d) = join newline (outline bs d) \<and>
     (renderLines bs d = [] \<longleftrightarrow> outline bs d = [])"
proof (induction bs d rule: renderLines.induct)
  case (1 depth)
  then show ?case by simp
next
  case (2 i u c l p pg pr ch f pb rest depth)
  have rest: "join newline (renderLines rest depth) = join newline (outline rest depth)"
      "renderLines rest depth = [] \<longleftrightarrow> outline rest depth = []"
    using 2 by (auto split: option.splits)
  show ?case
  proof (cases ch)
    case None
    then show ?thesis using rest by (auto simp: join_append Let_def split: option.splits)
  next
    case (Some xs)
    show ?thesis
    proof (cases "xs = []")
      case True
      then show ?thesis using rest Some by (auto simp: join_append Let_def split: option.splits)
    next
      case False
      then have hf: "hollow_free xs" and ne0: "outline xs 0 \<noteq> []"
        using 2(3) Some by auto
      have ne: "outline xs (depth + 1) \<noteq> []" using ne0 outline_empty_depth by blast
      have ih: "join newline (renderLines xs (depth + 1)) = join newline (outline xs (depth + 1))"
        using 2(1)[OF refl refl Some _ hf] False by simp
      show ?thesis using rest Some False ne ih
        by (auto simp: join_append join_Cons Let_def split: option.splits)
    qed
  qed
qed

text \<open>
  C2. The claim is that the rendering is the outline: one line per node whose
  content is not empty, the children one level below their parent, nothing for a node
  without content. The renderer pushes the rendering of every non-empty list of
  children as one entry, also when that rendering is empty: a node whose only child
  has no content is followed by an empty line, where the outline has none.
\<close>

theorem renderBlockTree_blank_line_for_silent_children:
  "renderBlockTree
     [BlockEntity 1 (ascii ''u1'') (Some (ascii ''A'')) 0 0 0 None
        (Some [BlockEntity 2 (ascii ''u2'') (Some []) 1 1 0 None None None None]) None None] 0
     = ascii ''- A'' @ newline
   \<and> join newline (outline
     [BlockEntity 1 (ascii ''u1'') (Some (ascii ''A'')) 0 0 0 None
        (Some [BlockEntity 2 (ascii ''u2'') (Some []) 1 1 0 None None None None]) None None] 0)
     = ascii ''- A''"
  by (simp add: renderBlockTree_def repeat_def trim_def is_js_whitespace_def ascii_def
      newline_def)


section \<open>The input validator\<close>

lemma object_field_issue:
  assumes "(k, s) \<in> set shape" "fst (safeParse s (p @ [Key k]) (map_of kvs k)) \<noteq> []"
  shows "fst (safeParse (ZObject shape strict) p (Some (JObj kvs))) \<noteq> []"
proof -
  have "\<exists>r\<in>set shape. fst (safeParse (snd r) (p @ [Key (fst r)]) (map_of kvs (fst r))) \<noteq> []"
    using assms by force
  then show ?thesis by (simp add: Let_def o_def)
qed

lemma number_outside_issue:
  assumes "number_outside kvs k lo hi"
  shows "fst (safeParse (ZDefault (ZNumber b lo hi) d) p (map_of kvs k)) \<noteq> []"
proof -
  obtain q where q: "map_of kvs k = Some (JNum q)"
    using assms by (auto simp: number_outside_def split: option.splits json.splits)
  have "(case lo of Some m \<Rightarrow> q < m | None \<Rightarrow> False) \<or> (case hi of Some m \<Rightarrow> m < q | None \<Rightarrow> False)"
    using assms q by (simp add: number_outside_def)
  then show ?thesis using q by (auto simp: check_def split: option.splits)
qed

lemma object_unrecognized:
  assumes "k \<in> set (map fst kvs)" "k \<notin> set (map fst shape)"
  shows "fst (safeParse (ZObject shape True) p (Some (JObj kvs))) \<noteq> []"
proof -
  have "filter (\<lambda>k. k \<notin> set (map fst shape)) (map fst kvs) \<noteq> []"
    using assms by (auto simp: filter_empty_conv)
  then show ?thesis by (simp add: Let_def)
qed

lemma required_undefined: "is_required s \<Longrightarrow> fst (safeParse s p None) \<noteq> []"
  by (cases s) simp_all

lemma nonempty_string_empty: "is_nonempty_string s \<Longrightarrow> fst (safeParse s p (Some (JStr []))) \<noteq> []"
  by (cases s rule: is_nonempty_string.cases) (simp_all add: check_def)

lemma validate_issues:
  "fst (safeParse s [] (Some raw)) \<noteq> [] \<Longrightarrow> validate s raw = Inl (fst (safeParse s [] (Some raw)))"
  by (cases "safeParse s [] (Some raw)") (auto simp: validate_def split: list.splits option.splits)

lemma inputSchema_strict: "inputSchema t = ZObject (shape_of (inputSchema t)) True"
  by (cases t)
    (simp_all add: ListPagesSchema_def GetPageSchema_def GetPageContentSchema_def
      CreatePageSchema_def DeletePageSchema_def RenamePageSchema_def
      GetPageLinkedReferencesSchema_def GetBlockSchema_def InsertBlockSchema_def
      AppendBlockSchema_def UpdateBlockSchema_def RemoveBlockSchema_def MoveBlockSchema_def
      InsertBatchBlockSchema_def BlockPropertySchema_def SearchSchema_def
      CreateJournalSchema_def GetGraphInfoSchema_def GetAllTagsSchema_def)

lemma violates_rejected:
  assumes "violates t raw"
  shows "fst (safeParse (inputSchema t) [] (Some raw)) \<noteq> []"
proof -
  obtain kvs where raw: "raw = JObj kvs" using assms by (cases raw) (auto simp: violates_def)
  let ?shape = "shape_of (inputSchema t)"
  have S: "inputSchema t = ZObject ?shape True" by (rule inputSchema_strict)
  have cases: "(t = logseq_list_pages \<and> number_outside kvs ''limit'' (Some 1) (Some 500))
          \<or> (t = logseq_list_pages \<and> number_outside kvs ''offset'' (Some 0) None)
          \<or> (\<exists>k\<in>set (nonempty_strings t). map_of kvs k = Some (JStr []))
          \<or> (\<exists>k\<in>set (required t). map_of kvs k = None)
          \<or> (\<exists>k\<in>set (map fst kvs). k \<notin> set (recognized t))"
    using assms unfolding raw violates_def by simp
  have "fst (safeParse (ZObject ?shape True) [] (Some (JObj kvs))) \<noteq> []"
    using cases
  proof (elim disjE conjE bexE)
    assume t: "t = logseq_list_pages" and n: "number_outside kvs ''limit'' (Some 1) (Some 500)"
    have "(''limit'', ZDefault (ZNumber True (Some 1) (Some 500)) (JNum 50)) \<in> set ?shape"
      using t by (simp add: ListPagesSchema_def)
    then show ?thesis using number_outside_issue[OF n] by (rule object_field_issue)
  next
    assume t: "t = logseq_list_pages" and n: "number_outside kvs ''offset'' (Some 0) None"
    have "(''offset'', ZDefault (ZNumber True (Some 0) None) (JNum 0)) \<in> set ?shape"
      using t by (simp add: ListPagesSchema_def)
    then show ?thesis using number_outside_issue[OF n] by (rule object_field_issue)
  next
    fix k assume k: "k \<in> set (nonempty_strings t)" and v: "map_of kvs k = Some (JStr [])"
    from k obtain s where s: "(k, s) \<in> set ?shape" "is_nonempty_string s"
      by (auto simp: nonempty_strings_def)
    have "fst (safeParse s ([] @ [Key k]) (map_of kvs k)) \<noteq> []"
      using nonempty_string_empty[OF s(2)] v by simp
    with s(1) show ?thesis by (rule object_field_issue)
  next
    fix k assume k: "k \<in> set (required t)" and v: "map_of kvs k = None"
    from k obtain s where s: "(k, s) \<in> set ?shape" "is_required s"
      by (auto simp: required_def)
    have "fst (safeParse s ([] @ [Key k]) (map_of kvs k)) \<noteq> []"
      using required_undefined[OF s(2)] v by simp
    with s(1) show ?thesis by (rule object_field_issue)
  next
    fix k assume "k \<in> set (map fst kvs)" "k \<notin> set (recognized t)"
    then show ?thesis unfolding recognized_def by (rule object_unrecognized)
  qed
  then show ?thesis using S raw by simp
qed

lemma limit_field:
  assumes "case v of None \<Rightarrow> True | Some (JNum q) \<Rightarrow> is_integer q \<and> 1 \<le> q \<and> q \<le> 500 | Some other \<Rightarrow> False"
  shows "safeParse (ZDefault (ZNumber True (Some 1) (Some 500)) (JNum 50)) p v =
         ([], Some (or_default v (JNum 50)))"
  using assms by (auto simp: check_def or_default_def is_integer_def split: option.splits json.splits)

lemma offset_field:
  assumes "case v of None \<Rightarrow> True | Some (JNum q) \<Rightarrow> is_integer q \<and> 0 \<le> q | Some other \<Rightarrow> False"
  shows "safeParse (ZDefault (ZNumber True (Some 0) None) (JNum 0)) p v =
         ([], Some (or_default v (JNum 0)))"
  using assms by (auto simp: check_def or_default_def is_integer_def split: option.splits json.splits)

lemma journal_only_field:
  assumes "case v of None \<Rightarrow> True | Some (JBool b) \<Rightarrow> True | Some other \<Rightarrow> False"
  shows "safeParse (ZDefault ZBoolean (JBool False)) p v = ([], Some (or_default v (JBool False)))"
  using assms by (auto simp: or_default_def split: option.splits json.splits)

lemma namespace_field:
  assumes "case v of None \<Rightarrow> True | Some (JStr s) \<Rightarrow> True | Some other \<Rightarrow> False"
  shows "safeParse (ZOptional (ZString None None)) p v = ([], v)"
  using assms by (auto simp: check_def split: option.splits json.splits)

text \<open>
  C4. The validator accepts every valid input of \<open>logseq_list_pages\<close> and fills in
  the documented defaults: the parsed parameters hold the limit given or else 50, the
  offset given or else 0, the journal filter given or else false, and the namespace
  only if one was given.
\<close>

theorem ListPagesSchema_accepts_valid_input:
  assumes "valid_list_pages_input raw"
  shows "\<exists>params. validate ListPagesSchema raw = Inr params
     \<and> param params ''limit'' = Some (or_default (param raw ''limit'') (JNum 50))
     \<and> param params ''offset'' = Some (or_default (param raw ''offset'') (JNum 0))
     \<and> param params ''journal_only'' = Some (or_default (param raw ''journal_only'') (JBool False))
     \<and> param params ''namespace'' = param raw ''namespace''"
proof -
  obtain kvs where raw: "raw = JObj kvs"
    using assms by (cases raw) (auto simp: valid_list_pages_input_def)
  have v: "\<forall>k\<in>set (map fst kvs). k \<in> set [''limit'', ''offset'', ''journal_only'', ''namespace'']"
    and l: "case map_of kvs ''limit'' of None \<Rightarrow> True
              | Some (JNum q) \<Rightarrow> is_integer q \<and> 1 \<le> q \<and> q \<le> 500 | Some other \<Rightarrow> False"
    and o: "case map_of kvs ''offset'' of None \<Rightarrow> True
              | Some (JNum q) \<Rightarrow> is_integer q \<and> 0 \<le> q | Some other \<Rightarrow> False"
    and j: "case map_of kvs ''journal_only'' of None \<Rightarrow> True
              | Some (JBool b) \<Rightarrow> True | Some other \<Rightarrow> False"
    and n: "case map_of kvs ''namespace'' of None \<Rightarrow> True
              | Some (JStr s) \<Rightarrow> True | Some other \<Rightarrow> False"
    using assms unfolding raw valid_list_pages_input_def by simp_all
  have extra: "filter (\<lambda>k. k \<noteq> ''limit'' \<and> k \<noteq> ''offset'' \<and> k \<noteq> ''journal_only'' \<and>
      k \<noteq> ''namespace'') (map fst kvs) = []"
    using v by (auto simp: filter_empty_conv)
  have "safeParse ListPagesSchema [] (Some raw) =
     ([], Some (JObj (defined_entries
        [(''limit'', Some (or_default (map_of kvs ''limit'') (JNum 50))),
         (''offset'', Some (or_default (map_of kvs ''offset'') (JNum 0))),
         (''journal_only'', Some (or_default (map_of kvs ''journal_only'') (JBool False))),
         (''namespace'', map_of kvs ''namespace'')])))"
    unfolding ListPagesSchema_def raw
    by (simp add: Let_def limit_field[OF l] offset_field[OF o] journal_only_field[OF j]
        namespace_field[OF n] extra del: safeParse.simps(9,10) filter.simps)
  then have "validate ListPagesSchema raw = Inr (JObj (defined_entries
        [(''limit'', Some (or_default (map_of kvs ''limit'') (JNum 50))),
         (''offset'', Some (or_default (map_of kvs ''offset'') (JNum 0))),
         (''journal_only'', Some (or_default (map_of kvs ''journal_only'') (JBool False))),
         (''namespace'', map_of kvs ''namespace'')]))"
    by (simp add: validate_def)
  then show ?thesis
    by (auto simp: param_def raw defined_entries_def split: option.splits)
qed

theorem ListPagesSchema_accepts_valid_input_witness:
  "valid_list_pages_input (JObj [(''offset'', JNum 20)]) \<and>
   (\<exists>params. validate ListPagesSchema (JObj [(''offset'', JNum 20)]) = Inr params \<and>
      param params ''limit'' = Some (JNum 50) \<and>
      param params ''offset'' = Some (JNum 20) \<and>
      param params ''journal_only'' = Some (JBool False) \<and>
      param params ''namespace'' = None \<and>
      int_param params ''limit'' = int DEFAULT_PAGE_LIMIT)"
proof -
  have v: "valid_list_pages_input (JObj [(''offset'', JNum 20)])"
    by (simp add: valid_list_pages_input_def is_integer_def)
  from ListPagesSchema_accepts_valid_input[OF v] obtain params where
    "validate ListPagesSchema (JObj [(''offset'', JNum 20)]) = Inr params"
    "param params ''limit'' = Some (JNum 50)"
    "param params ''offset'' = Some (JNum 20)"
    "param params ''journal_only'' = Some (JBool False)"
    "param params ''namespace'' = None"
    by (auto simp: or_default_def param_def)
  then show ?thesis using v by (auto simp: int_param_def DEFAULT_PAGE_LIMIT_def)
qed

text \<open>
  C5. An input that violates a declared constraint of the tool's schema (a limit
  above 500 or below 1, a negative offset, an empty string where a non-empty one is
  required, a missing required field, a field the tool does not recognize) is rejected by
  the validator with at least one issue, and the invocation ends with a marked
  failure and without any request having been sent.
\<close>

theorem invalid_input_rejected_before_any_request:
  assumes "violates (tool_of r) raw"
  shows "\<exists>issues. issues \<noteq> [] \<and> validate (inputSchema (tool_of r)) raw = Inl issues \<and>
           invoke P c raw r = (errorResponse (describe_issues P (tool_of r) issues), [])"
proof -
  let ?issues = "fst (safeParse (inputSchema (tool_of r)) [] (Some raw))"
  have ne: "?issues \<noteq> []" using assms by (rule violates_rejected)
  then have v: "validate (inputSchema (tool_of r)) raw = Inl ?issues" by (rule validate_issues)
  then have "invoke P c raw r = (errorResponse (describe_issues P (tool_of r) ?issues), [])"
    by (simp add: invoke_def)
  with ne v show ?thesis by blast
qed


theorem invalid_input_rejected_before_any_request_witness:
  "violates (tool_of (search_graph never_replying)) (JObj [(''query'', JStr [])]) \<and>
   isError (fst (invoke example_platform example_client (JObj [(''query'', JStr [])])
                  (search_graph never_replying))) \<and>
   snd (invoke example_platform example_client (JObj [(''query'', JStr [])])
          (search_graph never_replying)) = [] \<and>
   violates (tool_of (list_pages (replying []))) (JObj [(''limit'', JNum 501)]) \<and>
   snd (invoke example_platform example_client (JObj [(''limit'', JNum 501)])
          (list_pages (replying []))) = [] \<and>
   violates (tool_of (get_page (replying None))) (JObj []) \<and>
   snd (invoke example_platform example_client (JObj []) (get_page (replying None))) = [] \<and>
   violates (tool_of (get_all_tags (replying None))) (JObj [(''verbose'', JBool True)]) \<and>
   snd (invoke example_platform example_client (JObj [(''verbose'', JBool True)])
          (get_all_tags (replying None))) = []"
proof -
  have v1: "violates (tool_of (search_graph never_replying)) (JObj [(''query'', JStr [])])"
    by (simp add: violates_def nonempty_strings_def SearchSchema_def)
  have v2: "violates (tool_of (list_pages (replying []))) (JObj [(''limit'', JNum 501)])"
    by (simp add: violates_def number_outside_def)
  have v3: "violates (tool_of (get_page (replying None))) (JObj [])"
    by (simp add: violates_def required_def GetPageSchema_def)
  have v4: "violates (tool_of (get_all_tags (replying None))) (JObj [(''verbose'', JBool True)])"
    by (simp add: violates_def recognized_def GetAllTagsSchema_def)
  show ?thesis
    using v1 v2 v3 v4
      invalid_input_rejected_before_any_request[OF v1, of example_platform example_client]
      invalid_input_rejected_before_any_request[OF v2, of example_platform example_client]
      invalid_input_rejected_before_any_request[OF v3, of example_platform example_client]
      invalid_input_rejected_before_any_request[OF v4, of example_platform example_client]
    by (auto simp: errorResponse_def)
qed

section \<open>The remote-call adapter and the handlers\<close>

lemmas client_defs =
  getAllPages_def getPage_def getPageBlocksTree_def getPageLinkedReferences_def createPage_def
  deletePage_def renamePage_def getBlock_def insertBlock_def insertBatchBlock_def
  updateBlock_def removeBlock_def moveBlock_def appendBlockInPage_def getBlockProperties_def
  upsertBlockProperty_def createJournalPage_def getAllTags_def search_def getCurrentGraph_def

lemmas handler_defs =
  list_pages_handler_def get_page_handler_def get_page_content_handler_def
  create_page_handler_def delete_page_handler_def rename_page_handler_def
  get_page_linked_references_handler_def get_block_handler_def insert_block_handler_def
  append_block_handler_def update_block_handler_def remove_block_handler_def
  move_block_handler_def insert_batch_blocks_handler_def block_property_handler_def
  search_handler_def create_journal_handler_def get_graph_info_handler_def
  get_all_tags_handler_def

lemma carries_message1:
  "\<exists>pre suf. errorResponse (p @ m) = errorResponse (pre @ m @ suf)"
  by (rule exI[of _ p], rule exI[of _ "[]"]) simp

lemma carries_message2:
  "\<exists>pre suf. errorResponse (p @ m @ s) = errorResponse (pre @ m @ suf)"
  by (rule exI[of _ p], rule exI[of _ s]) simp

lemma handler_failure:
  assumes "thrown_by params r = Some e"
  shows "\<exists>pre suf. fst (handler P c params r) = errorResponse (pre @ extractErrorMessage e @ suf)"
  using assms
  by (cases r)
    (auto simp: handler_defs client_defs call_def failure_def carries_message1 carries_message2
      split: sum.splits option.splits if_splits)

lemma handler_requests:
  "length (snd (handler P c params r)) = (if appends_content params r then 2 else 1)"
  by (cases r)
    (auto simp: handler_defs client_defs call_def failure_def Let_def
      split: sum.splits option.splits list.splits)

lemma handler_request_shape:
  "req \<in> set (snd (handler P c params r)) \<Longrightarrow> \<exists>m a. req = api_request c m a"
  by (cases r)
    (auto simp: handler_defs client_defs call_def Let_def
      split: sum.splits option.splits list.splits if_splits)

lemma timed_out_outcome:
  assumes "timed_out x"
  shows "call_outcome x = Inl (Error (ascii
    ''Logseq API request timed out after 30000ms. Ensure Logseq is running and the HTTP API server is started.''))"
proof -
  have "awaited REQUEST_TIMEOUT_MS (fetch_at x) (fetch_outcome x) = Rejected AbortError"
    using assms by (auto simp: timed_out_def awaited_def split: option.splits)
  then show ?thesis
    by (simp add: call_outcome_def AbortError_def REQUEST_TIMEOUT_MS_def show_nat.simps ascii_def)
qed

lemma unanswered_thrown:
  assumes "unanswered r"
  shows "thrown_by params r = Some (Error (ascii
    ''Logseq API request timed out after 30000ms. Ensure Logseq is running and the HTTP API server is started.''))"
  using assms by (cases r) (auto simp: failure_def timed_out_outcome)


text \<open>
  C7. A request that receives no reply within the 30,000 ms of the timeout is
  aborted, and \<open>call\<close> throws the error whose message names the timeout, whatever
  the network would have answered later; an invocation none of whose requests is
  answered in time ends with a marked failure that carries this message.
\<close>

theorem timeout_is_reported_as_timeout:
  "(timed_out x \<longrightarrow>
      call_outcome x = Inl (Error (ascii
        ''Logseq API request timed out after 30000ms. Ensure Logseq is running and the HTTP API server is started.'')))
   \<and> (unanswered r \<longrightarrow>
      (\<exists>pre suf. fst (handler P c params r) = errorResponse (pre @ ascii
        ''Logseq API request timed out after 30000ms. Ensure Logseq is running and the HTTP API server is started.'' @ suf)))"
proof (intro conjI impI)
  assume "timed_out x"
  then show "call_outcome x = Inl (Error (ascii
        ''Logseq API request timed out after 30000ms. Ensure Logseq is running and the HTTP API server is started.''))"
    by (rule timed_out_outcome)
next
  assume "unanswered r"
  then have "thrown_by params r = Some (Error (ascii
    ''Logseq API request timed out after 30000ms. Ensure Logseq is running and the HTTP API server is started.''))"
    by (rule unanswered_thrown)
  from handler_failure[OF this, of P c]
  show "\<exists>pre suf. fst (handler P c params r) = errorResponse (pre @ ascii
        ''Logseq API request timed out after 30000ms. Ensure Logseq is running and the HTTP API server is started.'' @ suf)"
    by (simp add: extractErrorMessage_def)
qed


theorem timeout_is_reported_as_timeout_witness:
  "timed_out (never_replying :: unit exchange)
   \<and> call_outcome (never_replying :: unit exchange) = Inl (Error (ascii
        ''Logseq API request timed out after 30000ms. Ensure Logseq is running and the HTTP API server is started.''))
   \<and> unanswered (delete_page (replying_at 30001 ()))
   \<and> fst (handler example_platform example_client (JObj [(''name'', JStr (ascii ''Ideas''))])
            (delete_page (replying_at 30001 ()))) =
       errorResponse (ascii
        ''Failed to delete page: Logseq API request timed out after 30000ms. Ensure Logseq is running and the HTTP API server is started.'')"
proof -
  have t1: "timed_out (never_replying :: unit exchange)"
    by (simp add: timed_out_def never_replying_def)
  have t2: "unanswered (delete_page (replying_at 30001 ()))"
    by (simp add: timed_out_def replying_at_def REQUEST_TIMEOUT_MS_def)
  have o: "call_outcome (replying_at 30001 ()) = Inl (Error (ascii
        ''Logseq API request timed out after 30000ms. Ensure Logseq is running and the HTTP API server is started.''))"
    using timeout_is_reported_as_timeout[of "replying_at 30001 ()" "delete_page (replying_at 30001 ())"] t2
    by simp
  have h: "fst (handler example_platform example_client (JObj [(''name'', JStr (ascii ''Ideas''))])
            (delete_page (replying_at 30001 ()))) =
       errorResponse (ascii
        ''Failed to delete page: Logseq API request timed out after 30000ms. Ensure Logseq is running and the HTTP API server is started.'')"
    by (simp add: delete_page_handler_def deletePage_def call_def o extractErrorMessage_def
        ascii_def)
  show ?thesis
    using t1 t2 h timeout_is_reported_as_timeout[of "never_replying :: unit exchange"
        "delete_page (replying_at 30001 ())"]
    by simp
qed


lemma awaited_in_time: "in_time t \<Longrightarrow> awaited REQUEST_TIMEOUT_MS t outcome = outcome"
  by (auto simp: in_time_def awaited_def split: option.splits)

lemma failure_kinds:
  assumes "non_2xx x \<or> malformed x \<or> timed_out x"
  shows "\<exists>e. failure x = Some e"
  using assms
proof (elim disjE)
  assume "non_2xx x"
  then obtain response where "in_time (fetch_at x)" "fetch_outcome x = Resolved response"
      "\<not> ok response"
    by (auto simp: non_2xx_def split: settled.splits)
  then show ?thesis
    by (simp add: failure_def call_outcome_def awaited_in_time Let_def)
next
  assume "malformed x"
  then obtain response e where "in_time (fetch_at x)" "fetch_outcome x = Resolved response"
      "ok response" "in_time (body_at response)" "json_outcome response = Rejected e"
    by (auto simp: malformed_def split: settled.splits)
  then show ?thesis
    by (cases e) (simp_all add: failure_def call_outcome_def awaited_in_time Let_def)
next
  assume "timed_out x"
  then show ?thesis by (simp add: failure_def timed_out_outcome)
qed


text \<open>
  C8. A rejected input ends the invocation with a marked failure that describes the
  issues. A remote call that gets a status outside 200 to 299, a malformed body or no
  reply in time throws; whatever a call of a handler throws, the handler returns a
  marked failure whose text carries the message of what was thrown. A handler
  always returns a result: all of its code is inside its \<open>try\<close>, and its \<open>catch\<close>
  only builds the failure.
\<close>

theorem failures_are_marked_results:
  "(validate (inputSchema (tool_of r)) raw = Inl issues \<longrightarrow>
      invoke P c raw r = (errorResponse (describe_issues P (tool_of r) issues), []) \<and>
      isError (fst (invoke P c raw r)))
   \<and> ((non_2xx x \<or> malformed x \<or> timed_out x) \<longrightarrow> (\<exists>e. failure x = Some e))
   \<and> (thrown_by params r = Some e \<longrightarrow>
      isError (fst (handler P c params r)) \<and>
      (\<exists>pre suf. content_text (fst (handler P c params r)) = [pre @ extractErrorMessage e @ suf]))"
proof (intro conjI impI)
  assume "validate (inputSchema (tool_of r)) raw = Inl issues"
  then show "invoke P c raw r = (errorResponse (describe_issues P (tool_of r) issues), [])"
    by (simp add: invoke_def)
  then show "isError (fst (invoke P c raw r))" by (simp add: errorResponse_def)
next
  assume "non_2xx x \<or> malformed x \<or> timed_out x"
  then show "\<exists>e. failure x = Some e" by (rule failure_kinds)
next
  assume "thrown_by params r = Some e"
  from handler_failure[OF this, of P c]
  obtain pre suf where
    h: "fst (handler P c params r) = errorResponse (pre @ extractErrorMessage e @ suf)"
    by blast
  show "isError (fst (handler P c params r))" using h by (simp add: errorResponse_def)
  show "\<exists>pre suf. content_text (fst (handler P c params r)) = [pre @ extractErrorMessage e @ suf]"
    using h by (auto simp: errorResponse_def)
qed


theorem failures_are_marked_results_witness:
  "validate (inputSchema (tool_of (search_graph never_replying))) (JObj []) =
     Inl [ZodIssue invalid_type [Key ''query'']]
   \<and> invoke example_platform example_client (JObj []) (search_graph never_replying) =
     (errorResponse (ascii ''Invalid arguments''), [])
   \<and> non_2xx (error_reply :: BlockEntity option exchange)
   \<and> thrown_by (JObj [(''id'', JStr (ascii ''b1''))]) (get_block error_reply) =
     Some (Error (ascii ''Logseq API error 500: Internal Server Error''))
   \<and> fst (handler example_platform example_client (JObj [(''id'', JStr (ascii ''b1''))])
            (get_block error_reply)) =
     \<lparr>isError = True,
      content_text = [ascii ''Failed to get block: Logseq API error 500: Internal Server Error'']\<rparr>"
proof -
  have v: "validate (inputSchema (tool_of (search_graph never_replying))) (JObj []) =
     Inl [ZodIssue invalid_type [Key ''query'']]"
    by (simp add: validate_def SearchSchema_def)
  have n: "non_2xx (error_reply :: BlockEntity option exchange)"
    by (simp add: non_2xx_def in_time_def error_reply_def ok_def REQUEST_TIMEOUT_MS_def)
  have f: "failure (error_reply :: BlockEntity option exchange) =
      Some (Error (ascii ''Logseq API error 500: Internal Server Error''))"
    by (simp add: failure_def call_outcome_def awaited_def error_reply_def ok_def
        REQUEST_TIMEOUT_MS_def show_nat.simps ascii_def)
  then have t: "thrown_by (JObj [(''id'', JStr (ascii ''b1''))]) (get_block error_reply) =
     Some (Error (ascii ''Logseq API error 500: Internal Server Error''))"
    by simp
  have h: "fst (handler example_platform example_client (JObj [(''id'', JStr (ascii ''b1''))])
            (get_block error_reply)) =
     \<lparr>isError = True,
      content_text = [ascii ''Failed to get block: Logseq API error 500: Internal Server Error'']\<rparr>"
    using f by (simp add: get_block_handler_def getBlock_def call_def failure_def
        extractErrorMessage_def errorResponse_def ascii_def split: sum.splits)
  show ?thesis
    using v n t h
      failures_are_marked_results[of "search_graph never_replying" "JObj []"
        "[ZodIssue invalid_type [Key ''query'']]" example_platform example_client
        "error_reply :: BlockEntity option exchange" "JObj [(''id'', JStr (ascii ''b1''))]"
        "Error (ascii ''Logseq API error 500: Internal Server Error'')"]
    by (simp add: example_platform_def)
qed

text \<open>
  C6 as stated fails: the handler of \<open>logseq_create_page\<close>, run on the validated
  parameters of an input that gives the page initial content, sends two requests when
  the page is created.
\<close>

theorem create_page_with_content_sends_two_requests:
  "validate (inputSchema logseq_create_page)
      (JObj [(''name'', JStr (ascii ''Ideas'')), (''content'', JStr (ascii ''first''))]) =
      Inr (JObj [(''name'', JStr (ascii ''Ideas'')), (''content'', JStr (ascii ''first'')),
                 (''format'', JStr (ascii ''markdown'')), (''journal'', JBool False)])
   \<and> map (\<lambda>req. rpc_method (body req))
        (snd (handler example_platform example_client
          (JObj [(''name'', JStr (ascii ''Ideas'')), (''content'', JStr (ascii ''first'')),
                 (''format'', JStr (ascii ''markdown'')), (''journal'', JBool False)])
          (create_page (replying (example_page (ascii ''Ideas'')))
                       (replying (example_block (ascii ''first'')))))) =
      [ascii ''logseq.Editor.createPage'', ascii ''logseq.Editor.appendBlockInPage'']"
proof -
  have v: "validate CreatePageSchema
      (JObj [(''name'', JStr (ascii ''Ideas'')), (''content'', JStr (ascii ''first''))]) =
      Inr (JObj [(''name'', JStr (ascii ''Ideas'')), (''content'', JStr (ascii ''first'')),
                 (''format'', JStr (ascii ''markdown'')), (''journal'', JBool False)])"
    by (simp add: validate_def CreatePageSchema_def check_def defined_entries_def ascii_def)
  have c: "str_param (JObj [(''name'', JStr (ascii ''Ideas'')), (''content'', JStr (ascii ''first'')),
                 (''format'', JStr (ascii ''markdown'')), (''journal'', JBool False)]) ''content'' \<noteq> []"
    by (simp add: str_param_def param_def ascii_def)
  have o: "call_outcome (replying v) = Inr v" for v :: 'a
    by (simp add: call_outcome_def replying_def replying_at_def awaited_def ok_def
        REQUEST_TIMEOUT_MS_def)
  show ?thesis
    using c v by (simp add: create_page_handler_def createPage_def
        appendBlockInPage_def call_def o api_request_def)
qed

text \<open>
  C6, as amended. The handler of a tool sends one request, except that the handler
  of \<open>logseq_create_page\<close>, given initial content, sends a second one once the page is
  created; every request is a POST to the \<open>/api\<close> endpoint that carries a method
  name and its positional arguments, and \<open>call\<close> sends exactly one request whatever
  its outcome. This holds for all parameters, the validated ones among them.
\<close>

theorem requests_per_invocation:
  "length (snd (handler P c params r)) = (if appends_content params r then 2 else 1)
   \<and> (\<forall>req\<in>set (snd (handler P c params r)).
        (\<exists>m a. req = api_request c m a) \<and> verb req = ascii ''POST'' \<and>
        url req = baseUrl c @ ascii ''/api'')
   \<and> snd (call c m arguments x) = [api_request c m arguments]"
proof -
  have "\<forall>req\<in>set (snd (handler P c params r)).
          (\<exists>m a. req = api_request c m a) \<and> verb req = ascii ''POST'' \<and>
          url req = baseUrl c @ ascii ''/api''"
  proof
    fix req assume "req \<in> set (snd (handler P c params r))"
    then obtain m a where "req = api_request c m a" using handler_request_shape by blast
    then show "(\<exists>m a. req = api_request c m a) \<and> verb req = ascii ''POST'' \<and>
          url req = baseUrl c @ ascii ''/api''"
      by (auto simp: api_request_def)
  qed
  then show ?thesis using handler_requests[of P c params r] by (simp add: call_def)
qed

theorem requests_per_invocation_witness:
  "validate (inputSchema logseq_list_pages) (JObj []) =
     Inr (JObj [(''limit'', JNum 50), (''offset'', JNum 0), (''journal_only'', JBool False)])
   \<and> snd (handler example_platform example_client
        (JObj [(''limit'', JNum 50), (''offset'', JNum 0), (''journal_only'', JBool False)])
        (list_pages (replying []))) =
     [\<lparr>url = ascii ''http://127.0.0.1:12315/api'', verb = ascii ''POST'',
       headers = [(''Content-Type'', ascii ''application/json''),
                  (''Authorization'', ascii ''Bearer secret'')],
       body = \<lparr>rpc_method = ascii ''logseq.Editor.getAllPages'', args = []\<rparr>\<rparr>]
   \<and> length (snd (handler example_platform example_client
        (JObj [(''name'', JStr (ascii ''Ideas'')), (''format'', JStr (ascii ''markdown'')),
               (''journal'', JBool False)])
        (create_page (replying (example_page (ascii ''Ideas''))) never_replying))) = 1"
proof -
  let ?params = "JObj [(''limit'', JNum 50), (''offset'', JNum 0), (''journal_only'', JBool False)]"
  let ?create = "JObj [(''name'', JStr (ascii ''Ideas'')), (''format'', JStr (ascii ''markdown'')),
               (''journal'', JBool False)]"
  have v: "validate (inputSchema logseq_list_pages) (JObj []) = Inr ?params"
    by (simp add: validate_def ListPagesSchema_def check_def defined_entries_def is_integer_def)
  have "length (snd (handler example_platform example_client ?params (list_pages (replying []))))
      = 1"
    using requests_per_invocation[where P = example_platform and c = example_client
        and params = ?params and r = "list_pages (replying [])"
        and m = "[]" and arguments = "[]" and x = "never_replying :: unit exchange"]
    by simp
  moreover have "snd (handler example_platform example_client ?params (list_pages (replying [])))
      = [api_request example_client (ascii ''logseq.Editor.getAllPages'') []]"
    by (simp add: list_pages_handler_def getAllPages_def call_def Let_def
        split: sum.splits)
  moreover have "api_request example_client (ascii ''logseq.Editor.getAllPages'') [] =
     \<lparr>url = ascii ''http://127.0.0.1:12315/api'', verb = ascii ''POST'',
       headers = [(''Content-Type'', ascii ''application/json''),
                  (''Authorization'', ascii ''Bearer secret'')],
       body = \<lparr>rpc_method = ascii ''logseq.Editor.getAllPages'', args = []\<rparr>\<rparr>"
    by (simp add: api_request_def example_client_def new_LogseqClient_def DEFAULT_API_URL_def
        ascii_def)
  moreover have "\<not> appends_content ?create
      (create_page (replying (example_page (ascii ''Ideas''))) never_replying)"
    by (simp add: str_param_def param_def)
  then have "length (snd (handler example_platform example_client ?create
        (create_page (replying (example_page (ascii ''Ideas''))) never_replying))) = 1"
    using requests_per_invocation[where P = example_platform and c = example_client
        and params = ?create
        and r = "create_page (replying (example_page (ascii ''Ideas''))) never_replying"
        and m = "[]" and arguments = "[]" and x = "never_replying :: unit exchange"]
    by (simp only: if_False)
  ultimately show ?thesis using v by (simp only: simp_thms)
qed

section \<open>Listing pages\<close>

lemma textResponse_within:
  "length t \<le> CHARACTER_LIMIT \<Longrightarrow> textResponse t = \<lparr>isError = False, content_text = [t]\<rparr>"
  by (simp add: textResponse_def truncate_def)

lemma take_min_length: "take (min n (length ys)) ys = take n ys"
  by (simp add: min_def)

lemma js_slice_take_drop:
  assumes "0 \<le> a" "0 \<le> n"
  shows "js_slice xs a (a + n) = take (nat n) (drop (nat a) xs)"
proof (cases "a \<le> int (length xs)")
  case True
  have "nat (min (a + n) (int (length xs)) - a) = min (nat n) (length (drop (nat a) xs))"
    using assms True by (auto simp: min_def)
  then have "js_slice xs a (a + n) = take (min (nat n) (length (drop (nat a) xs))) (drop (nat a) xs)"
    using assms True by (simp add: js_slice_def Let_def min_absorb1)
  then show ?thesis by (simp only: take_min_length)
next
  case False
  then show ?thesis using assms by (simp add: js_slice_def Let_def min_def)
qed

lemma take_drop_indices:
  "take n (drop a xs) = map ((!) xs) [a ..< min (a + n) (length xs)]"
proof (rule nth_equalityI)
  show "length (take n (drop a xs)) = length (map ((!) xs) [a ..< min (a + n) (length xs)])"
    by (auto simp: min_def)
next
  fix i assume "i < length (take n (drop a xs))"
  then have i: "i < n" "a + i < length xs" by auto
  then have m: "a + i < min (a + n) (length xs)" by simp
  have b: "i < length [a ..< min (a + n) (length xs)]" using i by (auto simp: min_def)
  have "map ((!) xs) [a ..< min (a + n) (length xs)] ! i = xs ! ([a ..< min (a + n) (length xs)] ! i)"
    using b by (rule nth_map)
  also have "[a ..< min (a + n) (length xs)] ! i = a + i" using m by (rule nth_upt)
  finally have "map ((!) xs) [a ..< min (a + n) (length xs)] ! i = xs ! (a + i)" .
  moreover have "take n (drop a xs) ! i = xs ! (a + i)" using i by simp
  ultimately show "take n (drop a xs) ! i = map ((!) xs) [a ..< min (a + n) (length xs)] ! i"
    by simp
qed



lemma truncate_changes:
  assumes "CHARACTER_LIMIT < length t" "last t \<noteq> 0x5D"
  shows "truncate t \<noteq> t"
proof -
  have "last (truncate t) = 0x5D"
    using assms(1) by (simp add: truncate_def ascii_def)
  then show ?thesis using assms(2) by auto
qed


text \<open>
  C9 as stated fails where the listing exceeds the character budget: with a limit of
  1, two pages and a first page whose name has 100,000 code units, the response is the
  truncated listing, which ends with the truncation note and not with the note that
  more pages are available.
\<close>

theorem list_pages_listing_cut_by_truncation:
  "content_text (fst (list_pages_handler example_platform example_client
      (JObj [(''limit'', JNum 1), (''offset'', JNum 0), (''journal_only'', JBool False)])
      (replying [example_page (replicate 100000 0x61), example_page (ascii ''B'')])))
   \<noteq> [join newline
        [ascii ''**Pages** (1 of 2)'', [],
         formatPageSummary (example_page (replicate 100000 0x61)), [],
         ascii ''_More pages available. Use offset=1 to see next batch._'']]"
proof -
  let ?t = "join newline
        [ascii ''**Pages** (1 of 2)'', [],
         formatPageSummary (example_page (replicate 100000 0x61)), [],
         ascii ''_More pages available. Use offset=1 to see next batch._'']"
  have o: "call_outcome (replying v) = Inr v" for v :: 'a
    by (simp add: call_outcome_def replying_def replying_at_def awaited_def ok_def
        REQUEST_TIMEOUT_MS_def)
  have h: "fst (list_pages_handler example_platform example_client
      (JObj [(''limit'', JNum 1), (''offset'', JNum 0), (''journal_only'', JBool False)])
      (replying [example_page (replicate 100000 0x61), example_page (ascii ''B'')])) =
      textResponse ?t"
    by (simp add: list_pages_handler_def getAllPages_def call_def o Let_def filtered_pages_def
        bool_param_def str_param_def int_param_def param_def js_slice_def show_nat.simps
        show_int_def ascii_def)
  have len: "CHARACTER_LIMIT < length ?t"
    by (simp add: CHARACTER_LIMIT_def formatPageSummary_def example_page_def display_name_def
        ascii_def newline_def)
  have lst: "last ?t \<noteq> 0x5D"
    by (simp add: ascii_def newline_def)
  show ?thesis
    unfolding h using truncate_changes[OF len lst] by (simp add: textResponse_def)
qed

text \<open>
  C9, as amended. With a validated limit and offset and a successful remote call,
  \<open>logseq_list_pages\<close> composes the listing of the pages at the indices from
  \<open>offset\<close> up to \<open>offset + limit\<close> of the filtered list, \<open>min limit (total - offset)\<close>
  of them, with the note that more pages are available exactly when
  \<open>offset + limit < total\<close>. The response carries this listing unchanged when it has at
  most 100,000 code units, and as \<open>textResponse\<close> truncates it otherwise.
\<close>

theorem list_pages_listing:
  assumes "call_outcome x = Inr all_pages"
    and "0 \<le> int_param params ''offset''" and "1 \<le> int_param params ''limit''"
  shows "let offset = nat (int_param params ''offset'');
             limit = nat (int_param params ''limit'');
             pages = filtered_pages P params all_pages;
             total = length pages;
             shown = map ((!) pages) [offset ..< min (offset + limit) total];
             listing =
               [ascii ''**Pages** ('' @ show_nat (length shown) @ ascii '' of '' @
                show_nat total @ ascii '')'', []] @
               map formatPageSummary shown @
               (if offset + limit < total then
                  [[], ascii ''_More pages available. Use offset='' @
                       show_nat (offset + limit) @ ascii '' to see next batch._'']
                else [])
         in length shown = min limit (total - offset)
          \<and> list_pages_handler P c params x =
              (textResponse (join newline listing),
               [api_request c (ascii ''logseq.Editor.getAllPages'') []])
          \<and> (length (join newline listing) \<le> CHARACTER_LIMIT \<longrightarrow>
              fst (list_pages_handler P c params x) =
                \<lparr>isError = False, content_text = [join newline listing]\<rparr>)"
proof -
  let ?o = "int_param params ''offset''" and ?l = "int_param params ''limit''"
  let ?pages = "filtered_pages P params all_pages"
  let ?shown = "map ((!) ?pages) [nat ?o ..< min (nat ?o + nat ?l) (length ?pages)]"
  let ?listing = "[ascii ''**Pages** ('' @ show_nat (length ?shown) @ ascii '' of '' @
                show_nat (length ?pages) @ ascii '')'', []] @
               map formatPageSummary ?shown @
               (if nat ?o + nat ?l < length ?pages then
                  [[], ascii ''_More pages available. Use offset='' @
                       show_nat (nat ?o + nat ?l) @ ascii '' to see next batch._'']
                else [])"
  have l0: "0 \<le> ?l" using assms(3) by simp
  have slice: "js_slice ?pages ?o (?o + ?l) = ?shown"
    using js_slice_take_drop[OF assms(2) l0] by (simp only: take_drop_indices)
  have more: "(?o + ?l < int (length ?pages)) = (nat ?o + nat ?l < length ?pages)"
    using assms(2) l0 by linarith
  have sh: "show_int (?o + ?l) = show_nat (nat ?o + nat ?l)"
    using assms(2) l0 by (simp add: show_int_def nat_add_distrib)
  have len: "length ?shown = min (nat ?l) (length ?pages - nat ?o)"
    by (auto simp: min_def)
  have h: "list_pages_handler P c params x =
     (textResponse (join newline
        ([ascii ''**Pages** ('' @ show_nat (length (js_slice ?pages ?o (?o + ?l))) @
          ascii '' of '' @ show_nat (length ?pages) @ ascii '')'', []] @
         map formatPageSummary (js_slice ?pages ?o (?o + ?l)) @
         (if ?o + ?l < int (length ?pages) then
            [[], ascii ''_More pages available. Use offset='' @ show_int (?o + ?l) @
                 ascii '' to see next batch._'']
          else []))),
      [api_request c (ascii ''logseq.Editor.getAllPages'') []])"
    unfolding list_pages_handler_def getAllPages_def call_def assms(1) Let_def
    by (simp only: prod.case sum.case)
  have g: "list_pages_handler P c params x =
      (textResponse (join newline ?listing),
       [api_request c (ascii ''logseq.Editor.getAllPages'') []])"
    unfolding h by (simp only: slice more sh)
  have t: "length (join newline ?listing) \<le> CHARACTER_LIMIT \<longrightarrow>
      fst (list_pages_handler P c params x) =
        \<lparr>isError = False, content_text = [join newline ?listing]\<rparr>"
  proof
    assume a: "length (join newline ?listing) \<le> CHARACTER_LIMIT"
    show "fst (list_pages_handler P c params x) =
        \<lparr>isError = False, content_text = [join newline ?listing]\<rparr>"
      unfolding g fst_conv using a by (rule textResponse_within)
  qed
  show ?thesis unfolding Let_def using len g t by (intro conjI)
qed

theorem list_pages_listing_witness:
  "call_outcome (replying [example_page (ascii ''A''), example_page (ascii ''B'')]) =
     Inr [example_page (ascii ''A''), example_page (ascii ''B'')]
   \<and> 0 \<le> int_param (JObj [(''limit'', JNum 1), (''offset'', JNum 0),
                           (''journal_only'', JBool False)]) ''offset''
   \<and> 1 \<le> int_param (JObj [(''limit'', JNum 1), (''offset'', JNum 0),
                           (''journal_only'', JBool False)]) ''limit''
   \<and> fst (list_pages_handler example_platform example_client
      (JObj [(''limit'', JNum 1), (''offset'', JNum 0), (''journal_only'', JBool False)])
      (replying [example_page (ascii ''A''), example_page (ascii ''B'')])) =
     \<lparr>isError = False,
      content_text = [join newline
        [ascii ''**Pages** (1 of 2)'', [], ascii ''- **A** (uuid: u1)'', [],
         ascii ''_More pages available. Use offset=1 to see next batch._'']]\<rparr>"
proof -
  let ?params = "JObj [(''limit'', JNum 1), (''offset'', JNum 0), (''journal_only'', JBool False)]"
  let ?A = "example_page (ascii ''A'')" and ?B = "example_page (ascii ''B'')"
  have o: "call_outcome (replying [?A, ?B]) = Inr [?A, ?B]"
    by (simp add: call_outcome_def replying_def replying_at_def awaited_def ok_def
        REQUEST_TIMEOUT_MS_def)
  have i: "int_param ?params ''offset'' = 0" "int_param ?params ''limit'' = 1"
    by (simp_all add: int_param_def param_def)
  have a: "0 \<le> int_param ?params ''offset''" and b: "1 \<le> int_param ?params ''limit''"
    by (simp_all only: i)
  have f: "filtered_pages example_platform ?params [?A, ?B] = [?A, ?B]"
    by (simp add: filtered_pages_def bool_param_def str_param_def param_def)
  have e1: "map ((!) [?A, ?B]) [nat 0..<min (nat 0 + nat 1) (length [?A, ?B])] = [?A]"
    by simp
  have e2: "(nat 0 + nat 1 < length [?A, ?B]) = True" by simp
  have e3: "length [?A] = 1" "length [?A, ?B] = 2" "nat 0 + nat 1 = 1" by simp_all
  have s: "formatPageSummary ?A = ascii ''- **A** (uuid: u1)''"
    by (simp add: formatPageSummary_def example_page_def display_name_def ascii_def)
  have n: "show_nat 1 = ascii ''1''" "show_nat 2 = ascii ''2''" "show_nat (Suc 0) = ascii ''1''"
    "show_nat (Suc (Suc 0)) = ascii ''2''"
    by (simp_all add: show_nat.simps ascii_def)
  note L = list_pages_listing[OF o a b, of example_platform example_client,
      unfolded Let_def f i, THEN conjunct2, THEN conjunct2]
  have t: "[ascii ''**Pages** ('' @
        show_nat (length (map ((!) [?A, ?B]) [nat 0..<min (nat 0 + nat 1) (length [?A, ?B])])) @
        ascii '' of '' @ show_nat (length [?A, ?B]) @ ascii '')'', []] @
      map formatPageSummary (map ((!) [?A, ?B]) [nat 0..<min (nat 0 + nat 1) (length [?A, ?B])]) @
      (if nat 0 + nat 1 < length [?A, ?B] then
         [[], ascii ''_More pages available. Use offset='' @ show_nat (nat 0 + nat 1) @
              ascii '' to see next batch._'']
       else []) =
      [ascii ''**Pages** (1 of 2)'', [], ascii ''- **A** (uuid: u1)'', [],
         ascii ''_More pages available. Use offset=1 to see next batch._'']"
    apply (simp add: s n)
    apply (simp add: ascii_def)
    done
  note L' = L[unfolded t]
  have len: "length (join newline
        [ascii ''**Pages** (1 of 2)'', [], ascii ''- **A** (uuid: u1)'', [],
         ascii ''_More pages available. Use offset=1 to see next batch._'']) \<le> CHARACTER_LIMIT"
    by (simp add: CHARACTER_LIMIT_def ascii_def newline_def)
  from L' len have r: "fst (list_pages_handler example_platform example_client ?params
      (replying [?A, ?B])) =
     \<lparr>isError = False,
      content_text = [join newline
        [ascii ''**Pages** (1 of 2)'', [], ascii ''- **A** (uuid: u1)'', [],
         ascii ''_More pages available. Use offset=1 to see next batch._'']]\<rparr>"
    by (rule mp)
  show ?thesis using o a b r by (intro conjI)
qed

end
